theory Spec2Isabelle
  imports Main
begin

section \<open>Job store, file storage and faults\<close>

text \<open>
  The three controller variants of the repository (the subprocess executor and the
  remote-API executor, both behind the static API key and its shared system user, and the
  mock executor behind JWT sessions) share one table \<open>translation_jobs\<close>. The column
  \<open>status\<close> is a VARCHAR restricted by a CHECK constraint to four values.
\<close>

datatype job_status = Pending | Processing | Completed | Failed

fun status_text :: "job_status \<Rightarrow> string" where
  "status_text Pending = ''pending''"
| "status_text Processing = ''processing''"
| "status_text Completed = ''completed''"
| "status_text Failed = ''failed''"

text \<open>A thrown JavaScript \<open>Error\<close>; the controller only ever reads its \<open>message\<close>.\<close>

datatype error = Error (message: string)

text \<open>
  A row of \<open>translation_jobs\<close>. Nullable columns are options; \<open>job_id\<close> is the column
  \<open>id\<close> (the primary key). The column \<open>updated_at\<close>, maintained by a trigger and read by
  no handler, is left out.
\<close>

record job =
  job_id :: string
  user_id :: string
  source_language :: string
  target_language :: string
  document_type :: string
  original_filename :: string
  original_file_path :: string
  file_size :: nat
  translated_filename :: "string option"
  translated_file_path :: "string option"
  status :: job_status
  error_message :: "string option"
  created_at :: nat
  completed_at :: "nat option"

record user =
  uid :: string
  user_email :: string
  user_role :: string

text \<open>
  The state the controllers act on: the two tables, the files on disk (path to bytes),
  the database clock read by \<open>CURRENT_TIMESTAMP\<close>, and a log of the calls made to
  \<open>translateDocument\<close> (source path, target path), which the code does not keep and which
  is recorded here only to count executions.
\<close>

record world =
  users :: "user list"
  translation_jobs :: "job list"
  files :: "string \<Rightarrow> string option"
  now :: nat
  executions :: "(string \<times> string) list"

text \<open>
  Every \<open>await query(...)\<close> may reject. One optional fault per call site of a request says
  whether that call throws (the statement is then not applied) or runs; the dispatch's own
  lookup of the system user has a fault of its own, as it follows the handler's lookup.
\<close>

record db_faults =
  select_user_fault :: "error option"
  insert_user_fault :: "error option"
  insert_job_fault :: "error option"
  dispatch_lookup_fault :: "error option"
  set_processing_fault :: "error option"
  set_completed_fault :: "error option"
  set_failed_fault :: "error option"
  select_job_fault :: "error option"

text \<open>
  What the deployment and the database supply: the directory \<open>uploads/translated\<close>
  resolved against \<open>__dirname\<close>, and the ids that \<open>uuid_generate_v4()\<close> hands out for the
  next inserted user and job.
\<close>

record env =
  translatedDir :: string
  new_user_id :: string
  new_job_id :: string

text \<open>
  How an un-awaited promise ends: resolved, rejected (an unhandled rejection, as nothing
  awaits the dispatch), or cut short by an exception thrown outside any promise (a timer
  callback), which leaves the promise pending for ever.
\<close>

datatype promise = Resolved | Rejected error | Uncaught error

text \<open>
  The executor contract \<open>translateDocument(sourcePath, targetPath, sourceLanguage,
  targetLanguage, documentType)\<close>, acting on the files.
\<close>

datatype exec_result = Done "string \<Rightarrow> string option" | Thrown error | Crashed error

type_synonym executor =
  "string \<Rightarrow> string \<Rightarrow> string \<Rightarrow> string \<Rightarrow> string \<Rightarrow> (string \<Rightarrow> string option) \<Rightarrow> exec_result"

subsection \<open>SQL statements\<close>

text \<open>\<open>UPDATE translation_jobs SET ... WHERE id = $n\<close>: every row with that id is rewritten,
  unless the call throws.\<close>

definition rewrite_rows :: "string \<Rightarrow> (job \<Rightarrow> job) \<Rightarrow> world \<Rightarrow> world" where
  "rewrite_rows jobId upd w =
     w\<lparr>translation_jobs := map (\<lambda>j. if job_id j = jobId then upd j else j) (translation_jobs w)\<rparr>"

definition query_update :: "error option \<Rightarrow> string \<Rightarrow> (job \<Rightarrow> job) \<Rightarrow> world \<Rightarrow> error + world" where
  "query_update fault jobId upd w =
     (case fault of
        Some e \<Rightarrow> Inl e
      | None \<Rightarrow> Inr (rewrite_rows jobId upd w))"

text \<open>\<open>SELECT ... FROM translation_jobs WHERE id = $1\<close>.\<close>

definition job_rows :: "string \<Rightarrow> world \<Rightarrow> job list" where
  "job_rows jobId w = filter (\<lambda>j. job_id j = jobId) (translation_jobs w)"

text \<open>\<open>SELECT id FROM users WHERE email = $1\<close>.\<close>

definition select_user :: "error option \<Rightarrow> string \<Rightarrow> world \<Rightarrow> error + user list" where
  "select_user fault mail w =
     (case fault of
        Some e \<Rightarrow> Inl e
      | None \<Rightarrow> Inr (filter (\<lambda>u. user_email u = mail) (users w)))"

definition system_email :: string where
  "system_email = ''system@api-key.user''"

text \<open>
  \<open>INSERT INTO translation_jobs (...) VALUES (...) RETURNING id\<close>: the id comes from the
  column default, the primary key refuses an id already in the table, the remaining
  columns take their defaults (NULL, and the clock for \<open>created_at\<close>).
\<close>

definition insert_job ::
  "error option \<Rightarrow> string \<Rightarrow> string \<Rightarrow> string \<Rightarrow> string \<Rightarrow> string \<Rightarrow> string \<Rightarrow> string \<Rightarrow> nat
     \<Rightarrow> world \<Rightarrow> error + world" where
  "insert_job fault newId userId srcLang tgtLang docType originalname fpath fsize w =
     (case fault of
        Some e \<Rightarrow> Inl e
      | None \<Rightarrow>
          if newId \<in> set (map job_id (translation_jobs w))
          then Inl (Error ''duplicate key value violates unique constraint'')
          else Inr (w\<lparr>translation_jobs := translation_jobs w @
                 [\<lparr>job_id = newId, user_id = userId, source_language = srcLang,
                   target_language = tgtLang, document_type = docType,
                   original_filename = originalname, original_file_path = fpath,
                   file_size = fsize, translated_filename = None,
                   translated_file_path = None, status = Pending, error_message = None,
                   created_at = now w, completed_at = None\<rparr>]\<rparr>))"

text \<open>\<open>INSERT INTO users (...) VALUES (...) RETURNING id\<close> for the shared system user.\<close>

definition insert_system_user :: "error option \<Rightarrow> string \<Rightarrow> world \<Rightarrow> error + world" where
  "insert_system_user fault newId w =
     (case fault of
        Some e \<Rightarrow> Inl e
      | None \<Rightarrow> Inr (w\<lparr>users := users w @ [\<lparr>uid = newId, user_email = system_email, user_role = ''user''\<rparr>]\<rparr>))"

subsection \<open>Paths\<close>

text \<open>\<open>path.extname\<close> on the original file name: the last dot of the base name onwards,
  empty when there is no dot or the only dot leads the name.\<close>

definition basename :: "string \<Rightarrow> string" where
  "basename p = rev (takeWhile (\<lambda>c. c \<noteq> CHR ''/'') (rev p))"

definition extname :: "string \<Rightarrow> string" where
  "extname p =
     (let b = basename p; e = rev (takeWhile (\<lambda>c. c \<noteq> CHR ''.'') (rev b))
      in if CHR ''.'' \<notin> set b \<or> b = ''..'' \<or> Suc (length e) = length b then ''''
         else CHR ''.'' # e)"

definition translatedFilename_of :: "string \<Rightarrow> string \<Rightarrow> string" where
  "translatedFilename_of jobId originalFilename = ''translated_'' @ jobId @ extname originalFilename"

definition translatedPath_of :: "env \<Rightarrow> string \<Rightarrow> string \<Rightarrow> string" where
  "translatedPath_of ev jobId originalFilename =
     translatedDir ev @ ''/'' @ translatedFilename_of jobId originalFilename"

section \<open>Job lifecycle controller\<close>

text \<open>
  The \<open>SET\<close> clauses of the three \<open>UPDATE\<close> statements of \<open>processTranslationAsync\<close>.
  Only the completing one sets \<open>completed_at\<close>.
\<close>

definition mark_processing :: "job \<Rightarrow> job" where
  "mark_processing j = j\<lparr>status := Processing\<rparr>"

definition mark_completed :: "string \<Rightarrow> string \<Rightarrow> nat \<Rightarrow> job \<Rightarrow> job" where
  "mark_completed fname fpath t j =
     j\<lparr>status := Completed, translated_filename := Some fname,
       translated_file_path := Some fpath, completed_at := Some t\<rparr>"

definition mark_failed :: "string \<Rightarrow> job \<Rightarrow> job" where
  "mark_failed msg j = j\<lparr>status := Failed, error_message := Some msg\<rparr>"

definition set_processing :: "db_faults \<Rightarrow> string \<Rightarrow> world \<Rightarrow> error + world" where
  "set_processing df jobId w = query_update (set_processing_fault df) jobId mark_processing w"

definition set_completed :: "db_faults \<Rightarrow> string \<Rightarrow> string \<Rightarrow> string \<Rightarrow> world \<Rightarrow> error + world" where
  "set_completed df jobId fname fpath w =
     query_update (set_completed_fault df) jobId (mark_completed fname fpath (now w)) w"

definition set_failed :: "db_faults \<Rightarrow> string \<Rightarrow> error \<Rightarrow> world \<Rightarrow> error + world" where
  "set_failed df jobId e w =
     query_update (set_failed_fault df) jobId (mark_failed (message e)) w"

text \<open>
  The \<open>catch\<close> branch: one update, itself awaited outside any \<open>try\<close>, so its own fault
  rejects the promise of the dispatch. The second component is the list of the successive
  states, the latest last.
\<close>

definition on_failure :: "db_faults \<Rightarrow> string \<Rightarrow> error \<Rightarrow> world list \<Rightarrow> world \<Rightarrow> promise \<times> world list" where
  "on_failure df jobId e tr w =
     (case set_failed df jobId e w of
        Inl e' \<Rightarrow> (Rejected e', tr)
      | Inr w' \<Rightarrow> (Resolved, tr @ [w']))"

text \<open>
  The \<open>try\<close> block, the same text in the three variants: mark processing, build the output
  path, run the executor, mark completed; any throw goes to the \<open>catch\<close> branch.
\<close>

definition run_translation ::
  "executor \<Rightarrow> env \<Rightarrow> db_faults \<Rightarrow> string \<Rightarrow> string \<Rightarrow> string \<Rightarrow> string \<Rightarrow> string \<Rightarrow> string
     \<Rightarrow> world \<Rightarrow> promise \<times> world list" where
  "run_translation exec ev df jobId sourcePath originalFilename srcLang tgtLang docType w0 =
     (case set_processing df jobId w0 of
        Inl e \<Rightarrow> on_failure df jobId e [w0] w0
      | Inr w1 \<Rightarrow>
          (let fname = translatedFilename_of jobId originalFilename;
               fpath = translatedPath_of ev jobId originalFilename;
               w1' = w1\<lparr>executions := executions w1 @ [(sourcePath, fpath)]\<rparr>
           in case exec sourcePath fpath srcLang tgtLang docType (files w1) of
                Crashed e \<Rightarrow> (Uncaught e, [w0, w1'])
              | Thrown e \<Rightarrow> on_failure df jobId e [w0, w1'] w1'
              | Done fs \<Rightarrow>
                  (let w2 = w1'\<lparr>files := fs\<rparr>
                   in case set_completed df jobId fname fpath w2 of
                        Inl e \<Rightarrow> on_failure df jobId e [w0, w1', w2] w2
                      | Inr w3 \<Rightarrow> (Resolved, [w0, w1', w2, w3]))))"

text \<open>\<open>processTranslationAsync\<close> behind JWT sessions: the \<open>try\<close>/\<open>catch\<close> alone.\<close>

definition processTranslationAsync_jwt ::
  "executor \<Rightarrow> env \<Rightarrow> db_faults \<Rightarrow> string \<Rightarrow> string \<Rightarrow> string \<Rightarrow> string \<Rightarrow> string \<Rightarrow> string
     \<Rightarrow> world \<Rightarrow> promise \<times> world list" where
  "processTranslationAsync_jwt = run_translation"

text \<open>
  \<open>processTranslationAsync\<close> behind the API key: it first looks the system user up and
  returns at once, leaving the job as it is, when the lookup throws or finds no row.
\<close>

definition processTranslationAsync_key ::
  "executor \<Rightarrow> env \<Rightarrow> db_faults \<Rightarrow> string \<Rightarrow> string \<Rightarrow> string \<Rightarrow> string \<Rightarrow> string \<Rightarrow> string
     \<Rightarrow> world \<Rightarrow> promise \<times> world list" where
  "processTranslationAsync_key exec ev df jobId sourcePath originalFilename srcLang tgtLang docType w0 =
     (case select_user (dispatch_lookup_fault df) system_email w0 of
        Inl e \<Rightarrow> (Resolved, [w0])
      | Inr [] \<Rightarrow> (Resolved, [w0])
      | Inr (u # us) \<Rightarrow>
          run_translation exec ev df jobId sourcePath originalFilename srcLang tgtLang docType w0)"


subsection \<open>Creating a job\<close>

text \<open>\<open>req.file\<close> as multer leaves it, and \<open>req.user\<close> as the JWT middleware leaves it.\<close>

record upload =
  originalname :: string
  upload_path :: string
  upload_size :: nat

record jwt_payload =
  userId :: string
  email :: string
  role :: string

text \<open>The summary of a job sent by the history, and the detail sent by the status
  endpoint. \<open>progress\<close> is \<open>None\<close> where the variant sends no such key.\<close>

record job_summary =
  view_id :: string
  sourceLanguage :: string
  targetLanguage :: string
  documentType :: string
  originalFilename :: string
  translatedFilename :: "string option"
  view_status :: job_status
  createdAt :: nat
  completedAt :: "nat option"
  translatedFileUrl :: "string option"
  progress :: "nat option"

record job_detail = job_summary +
  errorMessage :: "string option"

record pagination =
  page_limit :: int
  page_offset :: int
  page_total :: nat

datatype response =
    Failure nat string
  | Accepted string "nat option"
  | StatusOk job_detail
  | HistoryOk "job_summary list" pagination
  | Download string "string option"

text \<open>Behind the API key the owner of every job is the system user, looked up by its
  e-mail address and inserted when there is none.\<close>

definition ensure_system_user :: "env \<Rightarrow> db_faults \<Rightarrow> world \<Rightarrow> error + string \<times> world" where
  "ensure_system_user ev df w =
     (case select_user (select_user_fault df) system_email w of
        Inl e \<Rightarrow> Inl e
      | Inr [] \<Rightarrow>
          (case insert_system_user (insert_user_fault df) (new_user_id ev) w of
             Inl e \<Rightarrow> Inl e
           | Inr w' \<Rightarrow> Inr (new_user_id ev, w'))
      | Inr (u # us) \<Rightarrow> Inr (uid u, w))"

text \<open>
  \<open>processTranslation\<close> behind the API key. The dispatch is called without \<open>await\<close>: the
  202 response does not depend on how it ends. The result is the response, the way the
  dispatch ended (\<open>None\<close> when there was none) and the successive states.
\<close>

definition processTranslation_key ::
  "executor \<Rightarrow> env \<Rightarrow> db_faults \<Rightarrow> upload option \<Rightarrow> string \<Rightarrow> string \<Rightarrow> string \<Rightarrow> world
     \<Rightarrow> response \<times> promise option \<times> world list" where
  "processTranslation_key exec ev df file srcLang tgtLang docType w0 =
     (case file of
        None \<Rightarrow> (Failure 400 ''No file uploaded'', None, [w0])
      | Some f \<Rightarrow>
          (case ensure_system_user ev df w0 of
             Inl e \<Rightarrow> (Failure 500 ''Failed to process translation request'', None, [w0])
           | Inr (owner, w1) \<Rightarrow>
               (case insert_job (insert_job_fault df) (new_job_id ev) owner srcLang tgtLang
                       docType (originalname f) (upload_path f) (upload_size f) w1 of
                  Inl e \<Rightarrow> (Failure 500 ''Failed to process translation request'', None, [w0, w1])
                | Inr w2 \<Rightarrow>
                    (let d = processTranslationAsync_key exec ev df (new_job_id ev)
                               (upload_path f) (originalname f) srcLang tgtLang docType w2
                     in (Accepted (new_job_id ev) (Some 0), Some (fst d), w0 # w1 # snd d)))))"

text \<open>\<open>processTranslation\<close> behind JWT sessions: the owner is the caller.\<close>

definition processTranslation_jwt ::
  "executor \<Rightarrow> env \<Rightarrow> db_faults \<Rightarrow> jwt_payload option \<Rightarrow> upload option \<Rightarrow> string \<Rightarrow> string
     \<Rightarrow> string \<Rightarrow> world \<Rightarrow> response \<times> promise option \<times> world list" where
  "processTranslation_jwt exec ev df caller file srcLang tgtLang docType w0 =
     (case caller of
        None \<Rightarrow> (Failure 401 ''User not authenticated'', None, [w0])
      | Some c \<Rightarrow>
          (case file of
             None \<Rightarrow> (Failure 400 ''No file uploaded'', None, [w0])
           | Some f \<Rightarrow>
               (case insert_job (insert_job_fault df) (new_job_id ev) (userId c) srcLang tgtLang
                       docType (originalname f) (upload_path f) (upload_size f) w0 of
                  Inl e \<Rightarrow> (Failure 500 ''Failed to process translation request'', None, [w0])
                | Inr w1 \<Rightarrow>
                    (let d = processTranslationAsync_jwt exec ev df (new_job_id ev)
                               (upload_path f) (originalname f) srcLang tgtLang docType w1
                     in (Accepted (new_job_id ev) None, Some (fst d), w0 # snd d)))))"


section \<open>Status and retrieval\<close>

text \<open>The three-point progress of the API-key variants:
  \<open>status === 'completed' ? 100 : (status === 'processing' ? 50 : 0)\<close>.\<close>

definition progress_of :: "job_status \<Rightarrow> nat" where
  "progress_of s = (if s = Completed then 100 else (if s = Processing then 50 else 0))"

definition file_url :: "job \<Rightarrow> string option" where
  "file_url j = (if status j = Completed then Some (''/api/files/'' @ job_id j) else None)"

definition summary_of :: "bool \<Rightarrow> job \<Rightarrow> job_summary" where
  "summary_of with_progress j =
     \<lparr>view_id = job_id j, sourceLanguage = source_language j,
      targetLanguage = target_language j, documentType = document_type j,
      originalFilename = original_filename j, translatedFilename = translated_filename j,
      view_status = status j, createdAt = created_at j, completedAt = completed_at j,
      translatedFileUrl = file_url j,
      progress = (if with_progress then Some (progress_of (status j)) else None)\<rparr>"

definition detail_of :: "bool \<Rightarrow> job \<Rightarrow> job_detail" where
  "detail_of with_progress j =
     job_summary.extend (summary_of with_progress j) \<lparr>errorMessage = error_message j\<rparr>"

text \<open>\<open>systemUserResult.rows[0]?.id || null\<close>.\<close>

definition system_user_id :: "user list \<Rightarrow> string option" where
  "system_user_id rows =
     (case rows of [] \<Rightarrow> None | u # us \<Rightarrow> (if uid u = [] then None else Some (uid u)))"

definition select_job :: "error option \<Rightarrow> string \<Rightarrow> world \<Rightarrow> error + job list" where
  "select_job fault jobId w = (case fault of Some e \<Rightarrow> Inl e | None \<Rightarrow> Inr (job_rows jobId w))"

text \<open>\<open>SELECT ... WHERE id = $1 AND user_id = $2\<close>.\<close>

definition select_own_job :: "error option \<Rightarrow> string \<Rightarrow> string \<Rightarrow> world \<Rightarrow> error + job list" where
  "select_own_job fault jobId owner w =
     (case fault of
        Some e \<Rightarrow> Inl e
      | None \<Rightarrow> Inr (filter (\<lambda>j. job_id j = jobId \<and> user_id j = owner) (translation_jobs w)))"

text \<open>\<open>getJobStatus\<close> behind the API key: any holder of the key reads any job.\<close>

definition getJobStatus_key :: "db_faults \<Rightarrow> string \<Rightarrow> world \<Rightarrow> response" where
  "getJobStatus_key df jobId w =
     (case select_user (select_user_fault df) system_email w of
        Inl e \<Rightarrow> Failure 500 ''Failed to fetch job status''
      | Inr rows \<Rightarrow>
          (case system_user_id rows of
             None \<Rightarrow> Failure 404 ''System user not found''
           | Some sysId \<Rightarrow>
               (case select_job (select_job_fault df) jobId w of
                  Inl e \<Rightarrow> Failure 500 ''Failed to fetch job status''
                | Inr [] \<Rightarrow> Failure 404 ''Translation job not found''
                | Inr (j # js) \<Rightarrow> StatusOk (detail_of True j))))"

text \<open>\<open>getJobStatus\<close> behind JWT sessions: the row is selected by id and owner.\<close>

definition getJobStatus_jwt :: "db_faults \<Rightarrow> jwt_payload option \<Rightarrow> string \<Rightarrow> world \<Rightarrow> response" where
  "getJobStatus_jwt df caller jobId w =
     (case caller of
        None \<Rightarrow> Failure 401 ''User not authenticated''
      | Some c \<Rightarrow>
          (case select_own_job (select_job_fault df) jobId (userId c) w of
             Inl e \<Rightarrow> Failure 500 ''Failed to fetch job status''
           | Inr [] \<Rightarrow> Failure 404 ''Translation job not found''
           | Inr (j # js) \<Rightarrow> StatusOk (detail_of False j)))"

text \<open>
  The tail of \<open>downloadFile\<close>, common to the variants: not completed gives 400, a
  completed row whose file \<open>fs.existsSync\<close> does not find gives 404, otherwise the file
  is sent.
\<close>

definition send_file :: "job \<Rightarrow> world \<Rightarrow> response" where
  "send_file j w =
     (if status j \<noteq> Completed
      then Failure 400 (''Translation is not yet completed. Current status: '' @ status_text (status j))
      else (case translated_file_path j of
              None \<Rightarrow> Failure 404 ''Translated file not found on server''
            | Some p \<Rightarrow>
                (if files w p = None then Failure 404 ''Translated file not found on server''
                 else Download p (translated_filename j))))"

text \<open>\<open>downloadFile\<close> behind the API key (\<open>const isAdmin = true\<close>, never consulted).\<close>

definition downloadFile_key :: "db_faults \<Rightarrow> string \<Rightarrow> world \<Rightarrow> response" where
  "downloadFile_key df jobId w =
     (case select_user (select_user_fault df) system_email w of
        Inl e \<Rightarrow> Failure 500 ''Failed to download file''
      | Inr rows \<Rightarrow>
          (case system_user_id rows of
             None \<Rightarrow> Failure 404 ''System user not found''
           | Some sysId \<Rightarrow>
               (case select_job (select_job_fault df) jobId w of
                  Inl e \<Rightarrow> Failure 500 ''Failed to download file''
                | Inr [] \<Rightarrow> Failure 404 ''Translation job not found''
                | Inr (j # js) \<Rightarrow> send_file j w)))"

text \<open>\<open>downloadFile\<close> behind JWT sessions: the owner or an admin.\<close>

definition downloadFile_jwt :: "db_faults \<Rightarrow> jwt_payload option \<Rightarrow> string \<Rightarrow> world \<Rightarrow> response" where
  "downloadFile_jwt df caller jobId w =
     (case caller of
        None \<Rightarrow> Failure 401 ''User not authenticated''
      | Some c \<Rightarrow>
          (let isAdmin = (role c = ''admin'') in
           case select_job (select_job_fault df) jobId w of
             Inl e \<Rightarrow> Failure 500 ''Failed to download file''
           | Inr [] \<Rightarrow> Failure 404 ''Translation job not found''
           | Inr (j # js) \<Rightarrow>
               (if user_id j \<noteq> userId c \<and> \<not> isAdmin
                then Failure 403 ''You do not have permission to access this file''
                else send_file j w)))"

subsection \<open>History\<close>

text \<open>\<open>parseInt(req.query.limit) || 50\<close>: the parsed value (\<open>None\<close> for NaN), replaced by
  the default when it is NaN or zero.\<close>

definition or_default :: "int option \<Rightarrow> int \<Rightarrow> int" where
  "or_default parsed d = (case parsed of None \<Rightarrow> d | Some n \<Rightarrow> (if n = 0 then d else n))"

datatype sql_value = SqlText string | SqlInt int

text \<open>The value bound to placeholder \<open>$n\<close>, when the call supplies that many.\<close>

definition placeholder :: "nat \<Rightarrow> sql_value list \<Rightarrow> sql_value option" where
  "placeholder n vals = (if 0 < n \<and> n \<le> length vals then Some (vals ! (n - 1)) else None)"

text \<open>
  \<open>SELECT ... FROM translation_jobs [WHERE user_id = $o] ORDER BY created_at DESC
  LIMIT $l OFFSET $k\<close> with the values of the call. PostgreSQL refuses a statement whose
  placeholders the call does not cover, and a negative LIMIT or OFFSET.
\<close>

definition select_history ::
  "error option \<Rightarrow> nat option \<Rightarrow> nat \<Rightarrow> nat \<Rightarrow> sql_value list \<Rightarrow> world \<Rightarrow> error + job list" where
  "select_history fault owner_ph limit_ph offset_ph vals w =
     (case fault of
        Some e \<Rightarrow> Inl e
      | None \<Rightarrow>
          (case (placeholder limit_ph vals, placeholder offset_ph vals) of
             (Some (SqlInt l), Some (SqlInt k)) \<Rightarrow>
               (if l < 0 then Inl (Error ''LIMIT must not be negative'')
                else if k < 0 then Inl (Error ''OFFSET must not be negative'')
                else
                  (let ordered = rev (sort_key created_at (translation_jobs w)) in
                   case owner_ph of
                     None \<Rightarrow> Inr (take (nat l) (drop (nat k) ordered))
                   | Some n \<Rightarrow>
                       (case placeholder n vals of
                          Some (SqlText owner) \<Rightarrow>
                            Inr (take (nat l) (drop (nat k) (filter (\<lambda>j. user_id j = owner) ordered)))
                        | _ \<Rightarrow> Inl (Error ''could not bind parameter''))))
           | _ \<Rightarrow> Inl (Error ''could not bind parameter'')))"

definition history_response :: "bool \<Rightarrow> int \<Rightarrow> int \<Rightarrow> error + job list \<Rightarrow> response" where
  "history_response with_progress lim off res =
     (case res of
        Inl e \<Rightarrow> Failure 500 ''Failed to fetch translation history''
      | Inr rows \<Rightarrow>
          (let jobs = map (summary_of with_progress) rows
           in HistoryOk jobs \<lparr>page_limit = lim, page_offset = off, page_total = length jobs\<rparr>))"

text \<open>\<open>getTranslationHistory\<close> behind JWT sessions: \<open>WHERE user_id = $1 ... LIMIT $2 OFFSET $3\<close>
  with \<open>[userId, limit, offset]\<close>.\<close>

definition getTranslationHistory_jwt ::
  "db_faults \<Rightarrow> jwt_payload option \<Rightarrow> int option \<Rightarrow> int option \<Rightarrow> world \<Rightarrow> response" where
  "getTranslationHistory_jwt df caller limit_q offset_q w =
     (case caller of
        None \<Rightarrow> Failure 401 ''User not authenticated''
      | Some c \<Rightarrow>
          (let lim = or_default limit_q 50; off = or_default offset_q 0
           in history_response False lim off
                (select_history (select_job_fault df) (Some 1) 2 3
                   [SqlText (userId c), SqlInt lim, SqlInt off] w)))"

text \<open>\<open>getTranslationHistory\<close> behind the API key, subprocess variant:
  \<open>LIMIT $1 OFFSET $2\<close> with \<open>[limit, offset]\<close>, every owner's jobs.\<close>

definition getTranslationHistory_key ::
  "db_faults \<Rightarrow> int option \<Rightarrow> int option \<Rightarrow> world \<Rightarrow> response" where
  "getTranslationHistory_key df limit_q offset_q w =
     (case select_user (select_user_fault df) system_email w of
        Inl e \<Rightarrow> Failure 500 ''Failed to fetch translation history''
      | Inr rows \<Rightarrow>
          (case system_user_id rows of
             None \<Rightarrow> Failure 404 ''System user not found''
           | Some sysId \<Rightarrow>
               (let lim = or_default limit_q 50; off = or_default offset_q 0
                in history_response True lim off
                     (select_history (select_job_fault df) None 1 2 [SqlInt lim, SqlInt off] w))))"

text \<open>\<open>getTranslationHistory\<close> behind the API key, remote-API variant: the statement
  reads \<open>LIMIT $2 OFFSET $3\<close> while the call still supplies \<open>[limit, offset]\<close>.\<close>

definition getTranslationHistory_remote ::
  "db_faults \<Rightarrow> int option \<Rightarrow> int option \<Rightarrow> world \<Rightarrow> response" where
  "getTranslationHistory_remote df limit_q offset_q w =
     (case select_user (select_user_fault df) system_email w of
        Inl e \<Rightarrow> Failure 500 ''Failed to fetch translation history''
      | Inr rows \<Rightarrow>
          (case system_user_id rows of
             None \<Rightarrow> Failure 404 ''System user not found''
           | Some sysId \<Rightarrow>
               (let lim = or_default limit_q 50; off = or_default offset_q 0
                in history_response True lim off
                     (select_history (select_job_fault df) None 2 3 [SqlInt lim, SqlInt off] w))))"


section \<open>Translation executors\<close>

text \<open>\<open>fs.readFileSync\<close> throws on a missing file; whether \<open>fs.writeFileSync\<close> throws on a
  path is for the environment to say.\<close>

definition enoent :: "string \<Rightarrow> error" where
  "enoent p = Error (''ENOENT: no such file or directory, open '' @ [CHR 0x27] @ p @ [CHR 0x27])"

definition copy_file ::
  "(string \<Rightarrow> error option) \<Rightarrow> string \<Rightarrow> string \<Rightarrow> (string \<Rightarrow> string option)
     \<Rightarrow> error + (string \<Rightarrow> string option)" where
  "copy_file write_fault sourcePath targetPath fs =
     (case fs sourcePath of
        None \<Rightarrow> Inl (enoent sourcePath)
      | Some content \<Rightarrow>
          (case write_fault targetPath of
             Some e \<Rightarrow> Inl e
           | None \<Rightarrow> Inr (fs(targetPath \<mapsto> content))))"

text \<open>The mock executor of the JWT variant: the copy runs inside \<open>try\<close>, a throw rejects.\<close>

definition translateDocument_mock :: "(string \<Rightarrow> error option) \<Rightarrow> executor" where
  "translateDocument_mock write_fault sourcePath targetPath srcLang tgtLang docType fs =
     (case copy_file write_fault sourcePath targetPath fs of
        Inl e \<Rightarrow> Thrown e
      | Inr fs' \<Rightarrow> Done fs')"

text \<open>The fallback of the API-key variants: the same copy in a timer callback with no
  \<open>try\<close> around it, so a throw is an uncaught exception.\<close>

definition fallback_copy :: "(string \<Rightarrow> error option) \<Rightarrow> executor" where
  "fallback_copy write_fault sourcePath targetPath srcLang tgtLang docType fs =
     (case copy_file write_fault sourcePath targetPath fs of
        Inl e \<Rightarrow> Crashed e
      | Inr fs' \<Rightarrow> Done fs')"

subsection \<open>The remote-API executor\<close>

fun starts_with :: "string \<Rightarrow> string \<Rightarrow> bool" where
  "starts_with s pat = (take (length pat) s = pat)"

fun str_includes :: "string \<Rightarrow> string \<Rightarrow> bool" where
  "str_includes [] pat = (pat = [])"
| "str_includes (c # cs) pat = (starts_with (c # cs) pat \<or> str_includes cs pat)"

text \<open>\<open>String.prototype.replace\<close> with a string pattern: the first occurrence only.\<close>

fun replace_first :: "string \<Rightarrow> string \<Rightarrow> string \<Rightarrow> string" where
  "replace_first [] pat rep = (if pat = [] then rep else [])"
| "replace_first (c # cs) pat rep =
     (if starts_with (c # cs) pat then rep @ drop (length pat) (c # cs)
      else c # replace_first cs pat rep)"

fun show_nat :: "nat \<Rightarrow> string" where
  "show_nat n =
     (if n < 10 then [char_of (48 + n)] else show_nat (n div 10) @ [char_of (48 + n mod 10)])"

text \<open>
  A \<open>fetch\<close> response as the executor reads it: the status, and what \<open>text()\<close>,
  \<open>json()\<close> and \<open>arrayBuffer()\<close> give, each of which may reject. Of the parsed JSON only
  \<open>translatedFileUrl\<close> is read: \<open>None\<close> when the key is missing.
\<close>

record http_response =
  status_code :: nat
  body_text :: "error + string"
  body_json :: "error + string option"
  body_bytes :: "error + string"

definition ok :: "http_response \<Rightarrow> bool" where
  "ok r = (200 \<le> status_code r \<and> status_code r \<le> 299)"

text \<open>
  The remote side: the two environment variables, the POST of the multipart form (URL,
  key, file bytes, file name, languages, document type), the GET of a URL, and the faults
  of local writes.
\<close>

record remote_env =
  apiUrl :: "string option"
  apiKey :: "string option"
  post_form ::
    "string \<Rightarrow> string \<Rightarrow> string \<Rightarrow> string \<Rightarrow> string \<Rightarrow> string \<Rightarrow> string \<Rightarrow> error + http_response"
  fetch_url :: "string \<Rightarrow> error + http_response"
  write_faults :: "string \<Rightarrow> error option"

definition download_url :: "string \<Rightarrow> string \<Rightarrow> string" where
  "download_url url api =
     (if str_includes url ''localhost'' \<and> str_includes api ''20.20.20.205''
      then replace_first url ''localhost'' ''20.20.20.205'' else url)"

definition configured :: "remote_env \<Rightarrow> bool" where
  "configured re = (apiUrl re \<noteq> None \<and> apiUrl re \<noteq> Some [] \<and> apiKey re \<noteq> None \<and> apiKey re \<noteq> Some [])"

text \<open>The branch taken when the response carries a \<open>translatedFileUrl\<close>: fetch it (after
  the host rewrite) and write the bytes to the target path.\<close>

definition save_download ::
  "remote_env \<Rightarrow> string \<Rightarrow> string \<Rightarrow> string \<Rightarrow> (string \<Rightarrow> string option) \<Rightarrow> exec_result" where
  "save_download re api url targetPath fs =
     (let downloadUrl = download_url url api in
      case fetch_url re downloadUrl of
        Inl e \<Rightarrow> Thrown e
      | Inr fileResponse \<Rightarrow>
          (if \<not> ok fileResponse
           then Thrown (Error (''Failed to download translated file from '' @ downloadUrl))
           else
             (case body_bytes fileResponse of
                Inl e \<Rightarrow> Thrown e
              | Inr bytes \<Rightarrow>
                  (case write_faults re targetPath of
                     Some e \<Rightarrow> Thrown e
                   | None \<Rightarrow> Done (fs(targetPath \<mapsto> bytes))))))"

text \<open>What follows the POST once it has answered.\<close>

definition read_response ::
  "remote_env \<Rightarrow> string \<Rightarrow> http_response \<Rightarrow> string \<Rightarrow> (string \<Rightarrow> string option) \<Rightarrow> exec_result" where
  "read_response re api response targetPath fs =
     (if \<not> ok response
      then (case body_text response of
              Inl e \<Rightarrow> Thrown e
            | Inr errorText \<Rightarrow>
                Thrown (Error (''External API error: '' @ show_nat (status_code response) @
                               '' - '' @ errorText)))
      else
        (case body_json response of
           Inl e \<Rightarrow> Thrown e
         | Inr None \<Rightarrow> Thrown (Error ''External API did not return a translated file URL'')
         | Inr (Some url) \<Rightarrow>
             (if url = []
              then Thrown (Error ''External API did not return a translated file URL'')
              else save_download re api url targetPath fs)))"

text \<open>\<open>translateDocument\<close> of the remote-API variant. Without both environment variables
  it falls back to the copy; otherwise everything runs inside \<open>try\<close> and every throw is
  rethrown to the caller.\<close>

definition translateDocument_remote :: "remote_env \<Rightarrow> executor" where
  "translateDocument_remote re sourcePath targetPath srcLang tgtLang docType fs =
     (if \<not> configured re
      then fallback_copy (write_faults re) sourcePath targetPath srcLang tgtLang docType fs
      else
        (case (apiUrl re, apiKey re) of
           (Some api, Some key) \<Rightarrow>
             (case fs sourcePath of
                None \<Rightarrow> Thrown (enoent sourcePath)
              | Some fileBuffer \<Rightarrow>
                  (case post_form re api key fileBuffer (basename sourcePath) srcLang tgtLang docType of
                     Inl e \<Rightarrow> Thrown e
                   | Inr response \<Rightarrow> read_response re api response targetPath fs))
         | other \<Rightarrow> fallback_copy (write_faults re) sourcePath targetPath srcLang tgtLang docType fs))"

subsection \<open>The subprocess executor\<close>

text \<open>
  Strings are the UTF-8 bytes of the JavaScript string. \<open>String.prototype.trim\<close> strips
  white space and line terminators from both ends: the ASCII ones, U+00A0, U+1680,
  U+2000 to U+200A, U+2028, U+2029, U+202F, U+205F, U+3000 and U+FEFF, each listed
  here by its bytes.
\<close>

definition white_space :: "string list" where
  "white_space =
     [[CHR 0x20], [CHR 0x09], [CHR 0x0A], [CHR 0x0B], [CHR 0x0C], [CHR 0x0D],
      [CHR 0xC2, CHR 0xA0], [CHR 0xE1, CHR 0x9A, CHR 0x80],
      [CHR 0xE2, CHR 0x80, CHR 0x80], [CHR 0xE2, CHR 0x80, CHR 0x81],
      [CHR 0xE2, CHR 0x80, CHR 0x82], [CHR 0xE2, CHR 0x80, CHR 0x83],
      [CHR 0xE2, CHR 0x80, CHR 0x84], [CHR 0xE2, CHR 0x80, CHR 0x85],
      [CHR 0xE2, CHR 0x80, CHR 0x86], [CHR 0xE2, CHR 0x80, CHR 0x87],
      [CHR 0xE2, CHR 0x80, CHR 0x88], [CHR 0xE2, CHR 0x80, CHR 0x89],
      [CHR 0xE2, CHR 0x80, CHR 0x8A], [CHR 0xE2, CHR 0x80, CHR 0xA8],
      [CHR 0xE2, CHR 0x80, CHR 0xA9], [CHR 0xE2, CHR 0x80, CHR 0xAF],
      [CHR 0xE2, CHR 0x81, CHR 0x9F], [CHR 0xE3, CHR 0x80, CHR 0x80],
      [CHR 0xEF, CHR 0xBB, CHR 0xBF]]"

text \<open>Strip white space from the front; every step removes at least one byte, so as
  many steps as the string has bytes are enough.\<close>

fun strip_front :: "nat \<Rightarrow> string list \<Rightarrow> string \<Rightarrow> string" where
  "strip_front 0 spaces s = s"
| "strip_front (Suc n) spaces s =
     (case find (\<lambda>t. starts_with s t) spaces of
        None \<Rightarrow> s
      | Some t \<Rightarrow> (if t = [] then s else strip_front n spaces (drop (length t) s)))"

definition trim_start :: "string \<Rightarrow> string" where
  "trim_start s = strip_front (length s) white_space s"

definition trim_end :: "string \<Rightarrow> string" where
  "trim_end s = rev (strip_front (length s) (map rev white_space) (rev s))"

definition trim :: "string \<Rightarrow> string" where
  "trim s = trim_end (trim_start s)"

text \<open>\<open>output.match(/ERROR:(.*)/)\<close>: the first \<open>ERROR:\<close> and what follows it on its line,
  a line ending at LF, CR, U+2028 or U+2029.\<close>

fun until_line_end :: "string \<Rightarrow> string" where
  "until_line_end [] = []"
| "until_line_end (c # cs) =
     (if c = CHR 0x0A \<or> c = CHR 0x0D
         \<or> starts_with (c # cs) [CHR 0xE2, CHR 0x80, CHR 0xA8]
         \<or> starts_with (c # cs) [CHR 0xE2, CHR 0x80, CHR 0xA9]
      then [] else c # until_line_end cs)"

fun match_error :: "string \<Rightarrow> string option" where
  "match_error [] = None"
| "match_error (c # cs) =
     (if starts_with (c # cs) ''ERROR:''
      then Some (until_line_end (drop 6 (c # cs)))
      else match_error cs)"

text \<open>The exit code in a template string: a number, or \<open>null\<close> after a signal.\<close>

definition show_code :: "nat option \<Rightarrow> string" where
  "show_code code = (case code of None \<Rightarrow> ''null'' | Some n \<Rightarrow> show_nat n)"

text \<open>
  What the spawned interpreter does is outside the repository: either the spawn fails
  (the \<open>error\<close> event), or the process closes with an exit code, its standard output, its
  standard error, and the files as it leaves them.
\<close>

datatype python_run =
    SpawnError error
  | Closed "nat option" string string "string \<Rightarrow> string option"

text \<open>
  The surroundings of the subprocess executor: whether \<open>universal_translator.py\<close> is
  there, the path chosen for the temporary script, the text of the script for a source
  and a target path, the run of the interpreter on that script, and the faults of local
  writes.
\<close>

record python_env =
  translator_present :: bool
  tempScriptPath :: string
  script_text :: "string \<Rightarrow> string \<Rightarrow> string"
  run_python :: "string \<Rightarrow> string \<Rightarrow> (string \<Rightarrow> string option) \<Rightarrow> python_run"
  script_write_faults :: "string \<Rightarrow> error option"

text \<open>
  \<open>translateDocument\<close> of the subprocess variant: the fallback copy when the translator
  is absent; otherwise write the script, spawn, delete the script when the process closes,
  and resolve exactly on exit code 0 together with \<open>SUCCESS:\<close> in the trimmed output. The
  file at the target path is not looked at.
\<close>

definition translateDocument_subprocess :: "python_env \<Rightarrow> executor" where
  "translateDocument_subprocess pe sourcePath targetPath srcLang tgtLang docType fs =
     (if \<not> translator_present pe
      then fallback_copy (script_write_faults pe) sourcePath targetPath srcLang tgtLang docType fs
      else
        (case script_write_faults pe (tempScriptPath pe) of
           Some e \<Rightarrow> Thrown e
         | None \<Rightarrow>
             (case run_python pe sourcePath targetPath
                     (fs(tempScriptPath pe \<mapsto> script_text pe sourcePath targetPath)) of
                SpawnError e \<Rightarrow> Thrown e
              | Closed code output stderrOutput fs' \<Rightarrow>
                  (if code = Some 0 \<and> str_includes (trim output) ''SUCCESS:''
                   then Done (fs'(tempScriptPath pe := None))
                   else Thrown (Error
                          (case match_error output of
                             Some m \<Rightarrow> trim m
                           | None \<Rightarrow> ''Python process exited with code '' @ show_code code @
                                     ''. Output: '' @ trim output @
                                     '' Stderr: '' @ trim stderrOutput))))))"

section \<open>Observations and sample data\<close>

text \<open>The statuses a job id goes through along a list of successive states, repeats
  dropped; states without a row for the id contribute nothing.\<close>

definition status_history :: "string \<Rightarrow> world list \<Rightarrow> job_status list" where
  "status_history jobId tr = remdups_adj (concat (map (\<lambda>w. map status (job_rows jobId w)) tr))"

text \<open>The status sequences the controllers can produce for one job.\<close>

definition lifecycle_paths :: "job_status list set" where
  "lifecycle_paths = {[], [Pending], [Pending, Processing], [Pending, Processing, Completed],
                      [Pending, Processing, Failed], [Pending, Failed]}"

definition no_faults :: db_faults where
  "no_faults = \<lparr>select_user_fault = None, insert_user_fault = None, insert_job_fault = None,
     dispatch_lookup_fault = None, set_processing_fault = None, set_completed_fault = None,
     set_failed_fault = None, select_job_fault = None\<rparr>"

definition no_write_faults :: "string \<Rightarrow> error option" where
  "no_write_faults p = None"

definition demo_env :: env where
  "demo_env = \<lparr>translatedDir = ''/srv/translated'', new_user_id = ''u0'', new_job_id = ''j1''\<rparr>"

definition demo_upload :: upload where
  "demo_upload = \<lparr>originalname = ''a.txt'', upload_path = ''/in/a.txt'', upload_size = 5\<rparr>"

text \<open>A store with the system user, one finished job of another owner and the uploaded
  source file.\<close>

definition demo_job :: "string \<Rightarrow> string \<Rightarrow> nat \<Rightarrow> job_status \<Rightarrow> job" where
  "demo_job jid owner created st =
     \<lparr>job_id = jid, user_id = owner, source_language = ''en'', target_language = ''es'',
      document_type = ''general'', original_filename = ''a.txt'',
      original_file_path = ''/in/a.txt'', file_size = 5,
      translated_filename = (if st = Completed then Some (''translated_'' @ jid @ ''.txt'') else None),
      translated_file_path =
        (if st = Completed then Some (''/srv/translated/translated_'' @ jid @ ''.txt'') else None),
      status = st, error_message = (if st = Failed then Some ''boom'' else None),
      created_at = created, completed_at = (if st = Completed then Some created else None)\<rparr>"

definition demo_world :: world where
  "demo_world =
     \<lparr>users = [\<lparr>uid = ''u0'', user_email = system_email, user_role = ''user''\<rparr>],
      translation_jobs = [demo_job ''j0'' ''u9'' 3 Completed],
      files = [''/in/a.txt'' \<mapsto> ''hello'', ''/srv/translated/translated_j0.txt'' \<mapsto> ''hola''],
      now = 7, executions = []\<rparr>"

definition always_fails :: executor where
  "always_fails sourcePath targetPath srcLang tgtLang docType fs =
     Thrown (Error ''remote API returned 500'')"

definition processing_write_fails :: db_faults where
  "processing_write_fails =
     no_faults\<lparr>set_processing_fault := Some (Error ''Connection terminated unexpectedly'')\<rparr>"

text \<open>The values of \<open>completed_at\<close> a job id goes through, repeats dropped.\<close>

definition completed_at_history :: "string \<Rightarrow> world list \<Rightarrow> nat option list" where
  "completed_at_history jobId tr =
     remdups_adj (concat (map (\<lambda>w. map completed_at (job_rows jobId w)) tr))"

text \<open>\<open>completed_at\<close> is set on exactly the completed rows.\<close>

definition stamped_iff_completed :: "job \<Rightarrow> bool" where
  "stamped_iff_completed j = ((completed_at j \<noteq> None) = (status j = Completed))"

definition rows_along :: "string \<Rightarrow> world list \<Rightarrow> job list" where
  "rows_along jobId tr = concat (map (job_rows jobId) tr)"

text \<open>
  A row agrees with the store: output file name and path are set exactly when the row is
  completed, the error message exactly when it is failed, and a completed row's path
  holds bytes.
\<close>

definition job_consistent :: "world \<Rightarrow> job \<Rightarrow> bool" where
  "job_consistent a j =
     ((translated_filename j \<noteq> None) = (status j = Completed)
      \<and> (translated_file_path j \<noteq> None) = (status j = Completed)
      \<and> (error_message j \<noteq> None) = (status j = Failed)
      \<and> (if status j = Completed
         then (case translated_file_path j of None \<Rightarrow> False | Some p \<Rightarrow> files a p \<noteq> None)
         else True))"

definition consistent_along :: "string \<Rightarrow> world list \<Rightarrow> bool" where
  "consistent_along jobId tr = list_all (\<lambda>a. list_all (job_consistent a) (job_rows jobId a)) tr"

text \<open>The references of a row agree with its status: output file name and path are set
  exactly when the row is completed, the error message exactly when it is failed.\<close>

definition refs_match_status :: "job \<Rightarrow> bool" where
  "refs_match_status j =
     ((translated_filename j \<noteq> None) = (status j = Completed)
      \<and> (translated_file_path j \<noteq> None) = (status j = Completed)
      \<and> (error_message j \<noteq> None) = (status j = Failed))"

definition refs_match_along :: "string \<Rightarrow> world list \<Rightarrow> bool" where
  "refs_match_along jobId tr = list_all refs_match_status (rows_along jobId tr)"

definition demo_pending :: world where
  "demo_pending =
     demo_world\<lparr>translation_jobs := translation_jobs demo_world @ [demo_job ''j1'' ''u0'' 7 Pending]\<rparr>"

definition dispatch_lookup_fails :: db_faults where
  "dispatch_lookup_fails =
     no_faults\<lparr>dispatch_lookup_fault := Some (Error ''Connection terminated unexpectedly'')\<rparr>"




text \<open>Two dispatches of the same job id, one after the other.\<close>

definition dispatch_twice ::
  "executor \<Rightarrow> env \<Rightarrow> db_faults \<Rightarrow> string \<Rightarrow> string \<Rightarrow> string \<Rightarrow> string \<Rightarrow> string \<Rightarrow> string
     \<Rightarrow> world \<Rightarrow> world list" where
  "dispatch_twice exec ev df jobId sourcePath origName srcLang tgtLang docType w =
     (let tr1 = snd (processTranslationAsync_key exec ev df jobId sourcePath origName
                       srcLang tgtLang docType w);
          tr2 = snd (processTranslationAsync_key exec ev df jobId sourcePath origName
                       srcLang tgtLang docType (last tr1))
      in tr1 @ tr2)"

text \<open>The part of the executor contract the controller relies on: a call that reports
  success has left bytes at the target path it was given.\<close>

definition writes_output :: "executor \<Rightarrow> bool" where
  "writes_output exec =
     (\<forall>src tgt srcLang tgtLang docType fs fs'.
        exec src tgt srcLang tgtLang docType fs = Done fs' \<longrightarrow> fs' tgt \<noteq> None)"

text \<open>The sample store after one complete dispatch of its pending job.\<close>

definition demo_done :: world where
  "demo_done = last (snd (processTranslationAsync_key (translateDocument_mock no_write_faults)
      demo_env no_faults ''j1'' ''/in/a.txt'' ''a.txt'' ''en'' ''es'' ''general'' demo_pending))"

text \<open>The progress a status response carries, and the progress the status endpoint of
  the API-key controller reports in each state of a list.\<close>

definition reported_progress :: "response \<Rightarrow> nat option" where
  "reported_progress r = (case r of StatusOk d \<Rightarrow> progress d | other \<Rightarrow> None)"

definition progress_history :: "db_faults \<Rightarrow> string \<Rightarrow> world list \<Rightarrow> nat option list" where
  "progress_history df jobId tr = map (\<lambda>w. reported_progress (getJobStatus_key df jobId w)) tr"

text \<open>A store with three jobs of one owner and one of another, and two callers.\<close>

definition demo_history :: world where
  "demo_history =
     \<lparr>users = [\<lparr>uid = ''u0'', user_email = system_email, user_role = ''user''\<rparr>],
      translation_jobs = [demo_job ''a1'' ''alice'' 1 Completed, demo_job ''b1'' ''bob'' 2 Completed,
                          demo_job ''a2'' ''alice'' 3 Failed, demo_job ''a3'' ''alice'' 4 Pending],
      files = [''/srv/translated/translated_b1.txt'' \<mapsto> ''hola''],
      now = 9, executions = []\<rparr>"

definition alice :: jwt_payload where
  "alice = \<lparr>userId = ''alice'', email = ''alice@example.org'', role = ''user''\<rparr>"

text \<open>The HTTP status a response goes out with.\<close>

definition http_status :: "response \<Rightarrow> nat" where
  "http_status r =
     (case r of
        Failure code msg \<Rightarrow> code
      | Accepted jobId p \<Rightarrow> 202
      | StatusOk d \<Rightarrow> 200
      | HistoryOk js pg \<Rightarrow> 200
      | Download fpath fname \<Rightarrow> 200)"

text \<open>The output file of a row is not in storage.\<close>

definition file_missing :: "job \<Rightarrow> world \<Rightarrow> bool" where
  "file_missing j w = (case translated_file_path j of None \<Rightarrow> True | Some p \<Rightarrow> files w p = None)"

definition not_ready :: "job_status \<Rightarrow> response" where
  "not_ready s = Failure 400 (''Translation is not yet completed. Current status: '' @ status_text s)"

definition system_user_found :: "db_faults \<Rightarrow> world \<Rightarrow> bool" where
  "system_user_found df w =
     (case select_user (select_user_fault df) system_email w of
        Inl e \<Rightarrow> False
      | Inr rows \<Rightarrow> system_user_id rows \<noteq> None)"

definition mallory :: jwt_payload where
  "mallory = \<lparr>userId = ''mallory'', email = ''mallory@example.org'', role = ''user''\<rparr>"

text \<open>A configured remote side: the POST is answered by the given response, and one
  download URL, on the host of the API, serves the translated bytes.\<close>

definition demo_error_response :: http_response where
  "demo_error_response =
     \<lparr>status_code = 500, body_text = Inr ''upstream exploded'',
      body_json = Inl (Error ''Unexpected token u in JSON at position 0''), body_bytes = Inr ''''\<rparr>"

definition demo_ok_response :: http_response where
  "demo_ok_response =
     \<lparr>status_code = 200, body_text = Inr ''{}'',
      body_json = Inr (Some ''http://localhost:8000/files/out.txt''), body_bytes = Inr ''{}''\<rparr>"

definition demo_no_url_response :: http_response where
  "demo_no_url_response =
     \<lparr>status_code = 200, body_text = Inr ''{}'', body_json = Inr None, body_bytes = Inr ''{}''\<rparr>"

definition demo_file_response :: http_response where
  "demo_file_response =
     \<lparr>status_code = 200, body_text = Inr ''hola'', body_json = Inl (Error ''Unexpected token h''),
      body_bytes = Inr ''hola''\<rparr>"

definition demo_remote :: "http_response \<Rightarrow> remote_env" where
  "demo_remote answer =
     \<lparr>apiUrl = Some ''http://20.20.20.205:8000/translate'', apiKey = Some ''secret'',
      post_form = (\<lambda>url key buf name srcLang tgtLang docType. Inr answer),
      fetch_url = (\<lambda>url. if url = ''http://20.20.20.205:8000/files/out.txt''
                         then Inr demo_file_response else Inl (Error ''fetch failed'')),
      write_faults = no_write_faults\<rparr>"

text \<open>What an executor result leaves at a path, when it is a success.\<close>

definition written_at :: "exec_result \<Rightarrow> string \<Rightarrow> string option" where
  "written_at r p = (case r of Done fs \<Rightarrow> fs p | other \<Rightarrow> None)"

definition is_done :: "exec_result \<Rightarrow> bool" where
  "is_done r = (case r of Done fs \<Rightarrow> True | other \<Rightarrow> False)"

definition thrown_message :: "exec_result \<Rightarrow> string option" where
  "thrown_message r = (case r of Thrown e \<Rightarrow> Some (message e) | other \<Rightarrow> None)"

text \<open>An interpreter run that reports success on standard output, exits with 0, and
  leaves its result under a name of its own choosing.\<close>

definition demo_python :: python_env where
  "demo_python =
     \<lparr>translator_present = True, tempScriptPath = ''/tmp/translate_1700000000000.py'',
      script_text = (\<lambda>src tgt. ''translate_file '' @ src @ '' '' @ tgt),
      run_python = (\<lambda>src tgt fs. Closed (Some 0) (''SUCCESS:/srv/translated/a_es.docx'' @ [CHR 0x0A])
                      '''' (fs(''/srv/translated/a_es.docx'' \<mapsto> ''hola''))),
      script_write_faults = no_write_faults\<rparr>"

section \<open>Verified properties\<close>

subsection \<open>Effects of the statements\<close>

lemma filter_update_same:
  assumes "\<And>j. job_id (upd j) = job_id j"
  shows "filter (\<lambda>j. job_id j = jid) (map (\<lambda>j. if job_id j = jid then upd j else j) xs)
         = map upd (filter (\<lambda>j. job_id j = jid) xs)"
  using assms by (induction xs) auto

lemma filter_update_other:
  assumes "jid' \<noteq> jid" and "\<And>j. job_id (upd j) = job_id j"
  shows "filter (\<lambda>j. job_id j = jid') (map (\<lambda>j. if job_id j = jid then upd j else j) xs)
         = filter (\<lambda>j. job_id j = jid') xs"
  using assms by (induction xs) auto

lemma rewrite_rows_fields [simp]:
  "files (rewrite_rows jid upd w) = files w"
  "executions (rewrite_rows jid upd w) = executions w"
  "now (rewrite_rows jid upd w) = now w"
  "users (rewrite_rows jid upd w) = users w"
  by (simp_all add: rewrite_rows_def)

lemma job_rows_fields [simp]:
  "job_rows jid (w\<lparr>executions := x\<rparr>) = job_rows jid w"
  "job_rows jid (w\<lparr>files := f\<rparr>) = job_rows jid w"
  "job_rows jid (w\<lparr>users := us\<rparr>) = job_rows jid w"
  by (simp_all add: job_rows_def)

lemma job_rows_rewrite:
  assumes "\<And>j. job_id (upd j) = job_id j"
  shows "job_rows jid' (rewrite_rows jid upd w) =
           (if jid' = jid then map upd (job_rows jid w) else job_rows jid' w)"
  using assms
  by (simp add: job_rows_def rewrite_rows_def filter_update_same filter_update_other)

lemma job_rows_marked [simp]:
  "job_rows jid' (rewrite_rows jid mark_processing w) =
     (if jid' = jid then map mark_processing (job_rows jid w) else job_rows jid' w)"
  "job_rows jid' (rewrite_rows jid (mark_completed fn fp t) w) =
     (if jid' = jid then map (mark_completed fn fp t) (job_rows jid w) else job_rows jid' w)"
  "job_rows jid' (rewrite_rows jid (mark_failed m) w) =
     (if jid' = jid then map (mark_failed m) (job_rows jid w) else job_rows jid' w)"
  by (simp_all add: job_rows_rewrite mark_processing_def mark_completed_def mark_failed_def)

lemma marked_status [simp]:
  "status (mark_processing j) = Processing"
  "status (mark_completed fn fp t j) = Completed"
  "status (mark_failed m j) = Failed"
  by (simp_all add: mark_processing_def mark_completed_def mark_failed_def)

lemma set_processing_cases:
  "set_processing df jid w =
     (case set_processing_fault df of
        Some e \<Rightarrow> Inl e
      | None \<Rightarrow> Inr (rewrite_rows jid mark_processing w))"
  by (simp add: set_processing_def query_update_def)

lemma set_completed_cases:
  "set_completed df jid fn fp w =
     (case set_completed_fault df of
        Some e \<Rightarrow> Inl e
      | None \<Rightarrow> Inr (rewrite_rows jid (mark_completed fn fp (now w)) w))"
  by (simp add: set_completed_def query_update_def)

lemma set_failed_cases:
  "set_failed df jid e w =
     (case set_failed_fault df of
        Some e' \<Rightarrow> Inl e'
      | None \<Rightarrow> Inr (rewrite_rows jid (mark_failed (message e)) w))"
  by (simp add: set_failed_def query_update_def)

lemmas dispatch_unfold =
  run_translation_def on_failure_def set_processing_cases set_completed_cases
  set_failed_cases Let_def

lemma insert_job_effect:
  assumes "insert_job fault newId owner sl tg dt oname fp fsz w = Inr w'"
  shows "job_rows newId w = []"
    and "job_rows newId w' =
           [\<lparr>job_id = newId, user_id = owner, source_language = sl, target_language = tg,
             document_type = dt, original_filename = oname, original_file_path = fp,
             file_size = fsz, translated_filename = None, translated_file_path = None,
             status = Pending, error_message = None, created_at = now w, completed_at = None\<rparr>]"
    and "jid' \<noteq> newId \<Longrightarrow> job_rows jid' w' = job_rows jid' w"
    and "files w' = files w" and "executions w' = executions w" and "now w' = now w"
  using assms
  by (cases fault; auto simp: insert_job_def job_rows_def filter_empty_conv split: if_splits)+

lemma ensure_system_user_effect:
  assumes "ensure_system_user ev df w = Inr (owner, w')"
  shows "job_rows jid w' = job_rows jid w" and "executions w' = executions w"
    and "files w' = files w" and "now w' = now w"
  using assms
  by (auto simp: ensure_system_user_def insert_system_user_def job_rows_def
           split: sum.splits list.splits option.splits)

lemma key_dispatch_cases:
  "processTranslationAsync_key exec ev df jid src ofn sl tg dt w = (Resolved, [w])
   \<or> processTranslationAsync_key exec ev df jid src ofn sl tg dt w
       = run_translation exec ev df jid src ofn sl tg dt w"
  by (simp add: processTranslationAsync_key_def split: sum.splits list.splits)

subsection \<open>Status sequences\<close>

lemma status_history_skip:
  "job_rows jid w = [] \<Longrightarrow> status_history jid (w # tr) = status_history jid tr"
  by (simp add: status_history_def)

lemma run_translation_history:
  assumes "map status (job_rows jid w) = [Pending]"
  shows "status_history jid (snd (run_translation exec ev df jid src ofn sl tg dt w))
         \<in> lifecycle_paths"
  using assms
  by (auto simp: dispatch_unfold status_history_def lifecycle_paths_def
           split: option.splits exec_result.splits)

lemma run_translation_others:
  assumes "jid' \<noteq> jid"
  shows "job_rows jid' ` set (snd (run_translation exec ev df jid src ofn sl tg dt w))
         = {job_rows jid' w}"
  using assms
  by (auto simp: dispatch_unfold split: option.splits exec_result.splits)

lemma key_dispatch_history:
  assumes "map status (job_rows jid w) = [Pending]"
  shows "status_history jid (snd (processTranslationAsync_key exec ev df jid src ofn sl tg dt w))
         \<in> lifecycle_paths"
  using run_translation_history[OF assms, of exec ev df src ofn sl tg dt] assms
    key_dispatch_cases[of exec ev df jid src ofn sl tg dt w]
  by (auto simp: lifecycle_paths_def status_history_def)

lemma key_dispatch_others:
  assumes "jid' \<noteq> jid"
  shows "job_rows jid' ` set (snd (processTranslationAsync_key exec ev df jid src ofn sl tg dt w))
         = {job_rows jid' w}"
  using run_translation_others[OF assms, of exec ev df src ofn sl tg dt w]
    key_dispatch_cases[of exec ev df jid src ofn sl tg dt w]
  by auto
subsection \<open>The shape of a request\<close>

text \<open>A creating request either stops before any job exists, leaving jobs, files and
  the execution log as they were, or inserts the job as a pending row and dispatches it
  once.\<close>

lemma key_request_cases:
  "(fst (snd (processTranslation_key exec ev df upl sl tg dt w)) = None
      \<and> snd (snd (processTranslation_key exec ev df upl sl tg dt w)) \<noteq> []
      \<and> (\<forall>a \<in> set (snd (snd (processTranslation_key exec ev df upl sl tg dt w))).
            translation_jobs a = translation_jobs w \<and> executions a = executions w
            \<and> files a = files w))
   \<or> (\<exists>f owner w1 w2.
         upl = Some f
       \<and> ensure_system_user ev df w = Inr (owner, w1)
       \<and> insert_job (insert_job_fault df) (new_job_id ev) owner sl tg dt
            (originalname f) (upload_path f) (upload_size f) w1 = Inr w2
       \<and> processTranslation_key exec ev df upl sl tg dt w =
           (Accepted (new_job_id ev) (Some 0),
            Some (fst (processTranslationAsync_key exec ev df (new_job_id ev) (upload_path f)
                         (originalname f) sl tg dt w2)),
            w # w1 # snd (processTranslationAsync_key exec ev df (new_job_id ev) (upload_path f)
                           (originalname f) sl tg dt w2)))"
proof (cases upl)
  case None
  then show ?thesis by (simp add: processTranslation_key_def)
next
  case (Some f)
  show ?thesis
  proof (cases "ensure_system_user ev df w")
    case (Inl e)
    then show ?thesis using Some by (simp add: processTranslation_key_def)
  next
    case (Inr ow)
    note ens = Inr
    obtain owner w1 where ow: "ow = (owner, w1)" by (cases ow)
    have same: "translation_jobs w1 = translation_jobs w \<and> executions w1 = executions w
                \<and> files w1 = files w"
      using ens ow
      by (auto simp: ensure_system_user_def insert_system_user_def
               split: sum.splits list.splits option.splits)
    show ?thesis
    proof (cases "insert_job (insert_job_fault df) (new_job_id ev) owner sl tg dt
                    (originalname f) (upload_path f) (upload_size f) w1")
      case (Inl e)
      then show ?thesis using Some ens ow same by (simp add: processTranslation_key_def)
    next
      case (Inr w2)
      then show ?thesis using Some ens ow by (simp add: processTranslation_key_def Let_def)
    qed
  qed
qed

lemma jwt_request_cases:
  "(fst (snd (processTranslation_jwt exec ev df caller upl sl tg dt w)) = None
      \<and> snd (snd (processTranslation_jwt exec ev df caller upl sl tg dt w)) = [w])
   \<or> (\<exists>c f w1.
         caller = Some c \<and> upl = Some f
       \<and> insert_job (insert_job_fault df) (new_job_id ev) (userId c) sl tg dt
            (originalname f) (upload_path f) (upload_size f) w = Inr w1
       \<and> processTranslation_jwt exec ev df caller upl sl tg dt w =
           (Accepted (new_job_id ev) None,
            Some (fst (run_translation exec ev df (new_job_id ev) (upload_path f)
                         (originalname f) sl tg dt w1)),
            w # snd (run_translation exec ev df (new_job_id ev) (upload_path f)
                       (originalname f) sl tg dt w1)))"
  by (auto simp: processTranslation_jwt_def processTranslationAsync_jwt_def Let_def
           split: option.splits sum.splits)

lemma key_request_history:
  assumes fresh: "job_rows (new_job_id ev) w = []"
  shows "status_history (new_job_id ev)
           (snd (snd (processTranslation_key exec ev df upl sl tg dt w))) \<in> lifecycle_paths"
  using key_request_cases[of exec ev df upl sl tg dt w]
proof (elim disjE exE conjE)
  assume "\<forall>a \<in> set (snd (snd (processTranslation_key exec ev df upl sl tg dt w))).
            translation_jobs a = translation_jobs w \<and> executions a = executions w
            \<and> files a = files w"
  then have "\<forall>a \<in> set (snd (snd (processTranslation_key exec ev df upl sl tg dt w))).
               job_rows (new_job_id ev) a = []"
    using fresh by (simp add: job_rows_def)
  then show ?thesis
    by (simp add: status_history_def lifecycle_paths_def)
next
  fix f owner w1 w2
  assume ens: "ensure_system_user ev df w = Inr (owner, w1)"
    and ins: "insert_job (insert_job_fault df) (new_job_id ev) owner sl tg dt
                (originalname f) (upload_path f) (upload_size f) w1 = Inr w2"
    and run: "processTranslation_key exec ev df upl sl tg dt w =
           (Accepted (new_job_id ev) (Some 0),
            Some (fst (processTranslationAsync_key exec ev df (new_job_id ev) (upload_path f)
                         (originalname f) sl tg dt w2)),
            w # w1 # snd (processTranslationAsync_key exec ev df (new_job_id ev) (upload_path f)
                           (originalname f) sl tg dt w2))"
  have rows1: "job_rows (new_job_id ev) w1 = []"
    using ensure_system_user_effect(1)[OF ens] fresh by simp
  have "map status (job_rows (new_job_id ev) w2) = [Pending]"
    using insert_job_effect(2)[OF ins] by simp
  then have "status_history (new_job_id ev)
               (snd (processTranslationAsync_key exec ev df (new_job_id ev) (upload_path f)
                      (originalname f) sl tg dt w2)) \<in> lifecycle_paths"
    by (rule key_dispatch_history)
  then show ?thesis
    using run fresh rows1 by (simp add: status_history_skip)
qed

lemma jwt_request_history:
  assumes fresh: "job_rows (new_job_id ev) w = []"
  shows "status_history (new_job_id ev)
           (snd (snd (processTranslation_jwt exec ev df caller upl sl tg dt w))) \<in> lifecycle_paths"
  using jwt_request_cases[of exec ev df caller upl sl tg dt w]
proof (elim disjE exE conjE)
  assume "snd (snd (processTranslation_jwt exec ev df caller upl sl tg dt w)) = [w]"
  then show ?thesis
    using fresh by (simp add: status_history_def lifecycle_paths_def)
next
  fix c f w1
  assume ins: "insert_job (insert_job_fault df) (new_job_id ev) (userId c) sl tg dt
                (originalname f) (upload_path f) (upload_size f) w = Inr w1"
    and run: "processTranslation_jwt exec ev df caller upl sl tg dt w =
           (Accepted (new_job_id ev) None,
            Some (fst (run_translation exec ev df (new_job_id ev) (upload_path f)
                         (originalname f) sl tg dt w1)),
            w # snd (run_translation exec ev df (new_job_id ev) (upload_path f)
                       (originalname f) sl tg dt w1))"
  have "map status (job_rows (new_job_id ev) w1) = [Pending]"
    using insert_job_effect(2)[OF ins] by simp
  then have "status_history (new_job_id ev)
               (snd (run_translation exec ev df (new_job_id ev) (upload_path f)
                      (originalname f) sl tg dt w1)) \<in> lifecycle_paths"
    by (rule run_translation_history)
  then show ?thesis
    using run fresh by (simp add: status_history_skip)
qed

lemma key_request_others:
  assumes other: "jid \<noteq> new_job_id ev"
  shows "job_rows jid ` set (snd (snd (processTranslation_key exec ev df upl sl tg dt w)))
         = {job_rows jid w}"
  using key_request_cases[of exec ev df upl sl tg dt w]
proof (elim disjE exE conjE)
  assume "snd (snd (processTranslation_key exec ev df upl sl tg dt w)) \<noteq> []"
    and "\<forall>a \<in> set (snd (snd (processTranslation_key exec ev df upl sl tg dt w))).
            translation_jobs a = translation_jobs w \<and> executions a = executions w
            \<and> files a = files w"
  then show ?thesis
    by (cases "snd (snd (processTranslation_key exec ev df upl sl tg dt w))")
       (auto simp: job_rows_def)
next
  fix f owner w1 w2
  assume ens: "ensure_system_user ev df w = Inr (owner, w1)"
    and ins: "insert_job (insert_job_fault df) (new_job_id ev) owner sl tg dt
                (originalname f) (upload_path f) (upload_size f) w1 = Inr w2"
    and run: "processTranslation_key exec ev df upl sl tg dt w =
           (Accepted (new_job_id ev) (Some 0),
            Some (fst (processTranslationAsync_key exec ev df (new_job_id ev) (upload_path f)
                         (originalname f) sl tg dt w2)),
            w # w1 # snd (processTranslationAsync_key exec ev df (new_job_id ev) (upload_path f)
                           (originalname f) sl tg dt w2))"
  have rows1: "job_rows jid w1 = job_rows jid w"
    using ensure_system_user_effect(1)[OF ens] by simp
  have rows2: "job_rows jid w2 = job_rows jid w"
    using insert_job_effect(3)[OF ins other] rows1 by simp
  show ?thesis
    using run rows1 rows2
      key_dispatch_others[OF other, of exec ev df "upload_path f" "originalname f" sl tg dt w2]
    by simp
qed

lemma jwt_request_others:
  assumes other: "jid \<noteq> new_job_id ev"
  shows "job_rows jid ` set (snd (snd (processTranslation_jwt exec ev df caller upl sl tg dt w)))
         = {job_rows jid w}"
  using jwt_request_cases[of exec ev df caller upl sl tg dt w]
proof (elim disjE exE conjE)
  assume "snd (snd (processTranslation_jwt exec ev df caller upl sl tg dt w)) = [w]"
  then show ?thesis by simp
next
  fix c f w1
  assume ins: "insert_job (insert_job_fault df) (new_job_id ev) (userId c) sl tg dt
                (originalname f) (upload_path f) (upload_size f) w = Inr w1"
    and run: "processTranslation_jwt exec ev df caller upl sl tg dt w =
           (Accepted (new_job_id ev) None,
            Some (fst (run_translation exec ev df (new_job_id ev) (upload_path f)
                         (originalname f) sl tg dt w1)),
            w # snd (run_translation exec ev df (new_job_id ev) (upload_path f)
                       (originalname f) sl tg dt w1))"
  have rows1: "job_rows jid w1 = job_rows jid w"
    using insert_job_effect(3)[OF ins other] by simp
  show ?thesis
    using run rows1
      run_translation_others[OF other, of exec ev df "upload_path f" "originalname f" sl tg dt w1]
    by simp
qed
subsection \<open>C1: the order of status transitions\<close>

text \<open>
  C1, as the code has it. A request that creates a job under a new id takes that job
  through one of the listed status sequences and no other: forward from pending through
  processing to completed or failed, or from pending straight to failed when the update
  to processing itself throws and the update to failed then succeeds; nothing follows a
  terminal status. The rows of every other job id, terminal or not, stay as they were in
  every state the request passes through. Both the API-key and the JWT controller.
\<close>

theorem status_moves_forward:
  assumes "job_rows (new_job_id ev) w = []"
  shows "status_history (new_job_id ev)
           (snd (snd (processTranslation_key exec ev df upl sl tg dt w))) \<in> lifecycle_paths
       \<and> status_history (new_job_id ev)
           (snd (snd (processTranslation_jwt exec ev df caller upl sl tg dt w))) \<in> lifecycle_paths
       \<and> (jid \<noteq> new_job_id ev \<longrightarrow>
            job_rows jid ` set (snd (snd (processTranslation_key exec ev df upl sl tg dt w)))
              = {job_rows jid w}
          \<and> job_rows jid ` set (snd (snd (processTranslation_jwt exec ev df caller upl sl tg dt w)))
              = {job_rows jid w})"
  using key_request_history[OF assms, of exec df upl sl tg dt]
    jwt_request_history[OF assms, of exec df caller upl sl tg dt]
    key_request_others[of jid ev exec df upl sl tg dt w]
    jwt_request_others[of jid ev exec df caller upl sl tg dt w]
  by simp

theorem status_moves_forward_witness:
  "job_rows (new_job_id demo_env) demo_world = []
   \<and> status_history (new_job_id demo_env)
        (snd (snd (processTranslation_key (translateDocument_mock no_write_faults) demo_env
           no_faults (Some demo_upload) ''en'' ''es'' ''general'' demo_world)))
       = [Pending, Processing, Completed]
   \<and> [Pending, Processing, Completed] \<in> lifecycle_paths
   \<and> ''j0'' \<noteq> new_job_id demo_env
   \<and> job_rows ''j0'' ` set (snd (snd (processTranslation_key (translateDocument_mock no_write_faults)
           demo_env no_faults (Some demo_upload) ''en'' ''es'' ''general'' demo_world)))
       = {job_rows ''j0'' demo_world}"
proof -
  have fresh: "job_rows (new_job_id demo_env) demo_world = []"
    by code_simp
  have other: "''j0'' \<noteq> new_job_id demo_env"
    by code_simp
  have run: "status_history (new_job_id demo_env)
        (snd (snd (processTranslation_key (translateDocument_mock no_write_faults) demo_env
           no_faults (Some demo_upload) ''en'' ''es'' ''general'' demo_world)))
       = [Pending, Processing, Completed]"
    by code_simp
  show ?thesis
    using fresh other run
      status_moves_forward[OF fresh, where jid = "''j0''"
        and exec = "translateDocument_mock no_write_faults" and df = no_faults
        and upl = "Some demo_upload" and sl = "''en''" and tg = "''es''" and dt = "''general''"]
    by simp
qed

theorem skips_processing_counterexample:
  "status_history ''j1''
     (snd (snd (processTranslation_key (translateDocument_mock no_write_faults) demo_env
        processing_write_fails (Some demo_upload) ''en'' ''es'' ''general'' demo_world)))
   = [Pending, Failed]"
  by code_simp

text \<open>When the direct step from pending to failed happens: only when the update to
  processing threw and the update to failed did not.\<close>

lemma skip_needs_processing_fault:
  assumes "map status (job_rows jid w) = [Pending]"
    and "status_history jid (snd (run_translation exec ev df jid src ofn sl tg dt w))
           = [Pending, Failed]"
  shows "set_processing_fault df \<noteq> None \<and> set_failed_fault df = None"
  using assms
  by (auto simp: dispatch_unfold status_history_def split: option.splits exec_result.splits)

subsection \<open>The rows a dispatch leaves\<close>

lemma run_translation_stamps:
  assumes "job_rows jid w = [j0]" and "status j0 = Pending" and "completed_at j0 = None"
  shows "completed_at_history jid (snd (run_translation exec ev df jid src ofn sl tg dt w))
           \<in> {[None], [None, Some (now w)]}
       \<and> list_all stamped_iff_completed
           (rows_along jid (snd (run_translation exec ev df jid src ofn sl tg dt w)))"
  using assms
  by (auto simp: dispatch_unfold rows_along_def completed_at_history_def stamped_iff_completed_def
        mark_processing_def mark_completed_def mark_failed_def
        split: option.splits exec_result.splits)

lemma key_dispatch_stamps:
  assumes "job_rows jid w = [j0]" and "status j0 = Pending" and "completed_at j0 = None"
  shows "completed_at_history jid (snd (processTranslationAsync_key exec ev df jid src ofn sl tg dt w))
           \<in> {[None], [None, Some (now w)]}
       \<and> list_all stamped_iff_completed
           (rows_along jid (snd (processTranslationAsync_key exec ev df jid src ofn sl tg dt w)))"
  using run_translation_stamps[OF assms, of exec ev df src ofn sl tg dt] assms
    key_dispatch_cases[of exec ev df jid src ofn sl tg dt w]
  by (auto simp: completed_at_history_def rows_along_def stamped_iff_completed_def)

lemma rows_along_skip:
  "job_rows jid w = [] \<Longrightarrow> rows_along jid (w # tr) = rows_along jid tr"
  by (simp add: rows_along_def)

lemma rows_along_empty:
  "\<forall>a \<in> set tr. job_rows jid a = [] \<Longrightarrow> rows_along jid tr = []"
  by (induction tr) (simp_all add: rows_along_def)

lemma completed_at_history_skip:
  "job_rows jid w = [] \<Longrightarrow> completed_at_history jid (w # tr) = completed_at_history jid tr"
  by (simp add: completed_at_history_def)

lemma key_request_stamps:
  assumes fresh: "job_rows (new_job_id ev) w = []"
  shows "completed_at_history (new_job_id ev)
           (snd (snd (processTranslation_key exec ev df upl sl tg dt w)))
           \<in> {[], [None], [None, Some (now w)]}
       \<and> list_all stamped_iff_completed
           (rows_along (new_job_id ev) (snd (snd (processTranslation_key exec ev df upl sl tg dt w))))"
  using key_request_cases[of exec ev df upl sl tg dt w]
proof (elim disjE exE conjE)
  assume "\<forall>a \<in> set (snd (snd (processTranslation_key exec ev df upl sl tg dt w))).
            translation_jobs a = translation_jobs w \<and> executions a = executions w
            \<and> files a = files w"
  then have "\<forall>a \<in> set (snd (snd (processTranslation_key exec ev df upl sl tg dt w))).
               job_rows (new_job_id ev) a = []"
    using fresh by (simp add: job_rows_def)
  then show ?thesis
    using rows_along_empty[of "snd (snd (processTranslation_key exec ev df upl sl tg dt w))"
        "new_job_id ev"]
    by (simp add: completed_at_history_def)
next
  fix f owner w1 w2
  assume ens: "ensure_system_user ev df w = Inr (owner, w1)"
    and ins: "insert_job (insert_job_fault df) (new_job_id ev) owner sl tg dt
                (originalname f) (upload_path f) (upload_size f) w1 = Inr w2"
    and run: "processTranslation_key exec ev df upl sl tg dt w =
           (Accepted (new_job_id ev) (Some 0),
            Some (fst (processTranslationAsync_key exec ev df (new_job_id ev) (upload_path f)
                         (originalname f) sl tg dt w2)),
            w # w1 # snd (processTranslationAsync_key exec ev df (new_job_id ev) (upload_path f)
                           (originalname f) sl tg dt w2))"
  have rows1: "job_rows (new_job_id ev) w1 = []"
    using ensure_system_user_effect(1)[OF ens] fresh by simp
  have clock: "now w2 = now w"
    using insert_job_effect(6)[OF ins] ensure_system_user_effect(4)[OF ens] by simp
  show ?thesis
    using run fresh rows1 clock
      key_dispatch_stamps[OF insert_job_effect(2)[OF ins], of exec ev df "upload_path f"
        "originalname f" sl tg dt]
    by (simp add: rows_along_skip completed_at_history_skip)
qed

lemma jwt_request_stamps:
  assumes fresh: "job_rows (new_job_id ev) w = []"
  shows "completed_at_history (new_job_id ev)
           (snd (snd (processTranslation_jwt exec ev df caller upl sl tg dt w)))
           \<in> {[], [None], [None, Some (now w)]}
       \<and> list_all stamped_iff_completed
           (rows_along (new_job_id ev)
              (snd (snd (processTranslation_jwt exec ev df caller upl sl tg dt w))))"
  using jwt_request_cases[of exec ev df caller upl sl tg dt w]
proof (elim disjE exE conjE)
  assume "snd (snd (processTranslation_jwt exec ev df caller upl sl tg dt w)) = [w]"
  then show ?thesis
    using fresh by (simp add: completed_at_history_def rows_along_def)
next
  fix c f w1
  assume ins: "insert_job (insert_job_fault df) (new_job_id ev) (userId c) sl tg dt
                (originalname f) (upload_path f) (upload_size f) w = Inr w1"
    and run: "processTranslation_jwt exec ev df caller upl sl tg dt w =
           (Accepted (new_job_id ev) None,
            Some (fst (run_translation exec ev df (new_job_id ev) (upload_path f)
                         (originalname f) sl tg dt w1)),
            w # snd (run_translation exec ev df (new_job_id ev) (upload_path f)
                       (originalname f) sl tg dt w1))"
  show ?thesis
    using run fresh insert_job_effect(6)[OF ins]
      run_translation_stamps[OF insert_job_effect(2)[OF ins], of exec ev df "upload_path f"
        "originalname f" sl tg dt]
    by (simp add: rows_along_skip completed_at_history_skip)
qed

subsection \<open>C4: when \<open>completed_at\<close> is set\<close>

text \<open>
  C4, as the code has it. For the job a request creates, \<open>completed_at\<close> is set exactly
  once, by the update that moves the job to completed, with the clock of that moment: its
  values along the request are nothing, or unset, or unset followed by that one stamp. In
  every state, a row of the job carries a stamp exactly when its status is completed: no
  stamp before the job completes, and none on a failed job, since the update to failed
  does not touch \<open>completed_at\<close>.
\<close>

theorem completed_at_only_on_completed:
  assumes "job_rows (new_job_id ev) w = []"
  shows "completed_at_history (new_job_id ev)
           (snd (snd (processTranslation_key exec ev df upl sl tg dt w)))
           \<in> {[], [None], [None, Some (now w)]}
       \<and> list_all stamped_iff_completed
           (rows_along (new_job_id ev) (snd (snd (processTranslation_key exec ev df upl sl tg dt w))))
       \<and> completed_at_history (new_job_id ev)
           (snd (snd (processTranslation_jwt exec ev df caller upl sl tg dt w)))
           \<in> {[], [None], [None, Some (now w)]}
       \<and> list_all stamped_iff_completed
           (rows_along (new_job_id ev)
              (snd (snd (processTranslation_jwt exec ev df caller upl sl tg dt w))))"
  using key_request_stamps[OF assms, of exec df upl sl tg dt]
    jwt_request_stamps[OF assms, of exec df caller upl sl tg dt]
  by simp

theorem completed_at_only_on_completed_witness:
  "job_rows (new_job_id demo_env) demo_world = []
   \<and> completed_at_history (new_job_id demo_env)
        (snd (snd (processTranslation_key (translateDocument_mock no_write_faults) demo_env
           no_faults (Some demo_upload) ''en'' ''es'' ''general'' demo_world)))
       = [None, Some 7]
   \<and> list_all stamped_iff_completed
        (rows_along (new_job_id demo_env)
           (snd (snd (processTranslation_key (translateDocument_mock no_write_faults) demo_env
              no_faults (Some demo_upload) ''en'' ''es'' ''general'' demo_world))))"
proof -
  have fresh: "job_rows (new_job_id demo_env) demo_world = []"
    by code_simp
  have run: "completed_at_history (new_job_id demo_env)
        (snd (snd (processTranslation_key (translateDocument_mock no_write_faults) demo_env
           no_faults (Some demo_upload) ''en'' ''es'' ''general'' demo_world)))
       = [None, Some 7]"
    by code_simp
  show ?thesis
    using fresh run
      completed_at_only_on_completed[OF fresh,
        where exec = "translateDocument_mock no_write_faults" and df = no_faults
        and upl = "Some demo_upload" and sl = "''en''" and tg = "''es''" and dt = "''general''"]
    by simp
qed

theorem failed_without_completed_at_counterexample:
  "status_history ''j1''
     (snd (snd (processTranslation_key always_fails demo_env no_faults (Some demo_upload)
        ''en'' ''es'' ''general'' demo_world)))
     = [Pending, Processing, Failed]
   \<and> completed_at_history ''j1''
     (snd (snd (processTranslation_key always_fails demo_env no_faults (Some demo_upload)
        ''en'' ''es'' ''general'' demo_world)))
     = [None]"
  by code_simp

subsection \<open>Executors that write their output\<close>

lemma copy_file_writes:
  "copy_file wfa src tgt fs = Inr fs' \<Longrightarrow> fs' tgt = fs src \<and> fs src \<noteq> None"
  by (auto simp: copy_file_def split: option.splits)

lemma mock_writes_output: "writes_output (translateDocument_mock wfa)"
  by (auto simp: writes_output_def translateDocument_mock_def dest: copy_file_writes
           split: sum.splits)

lemma fallback_done:
  "fallback_copy wfa src tgt sl tg dt fs = Done fs' \<Longrightarrow> fs' tgt \<noteq> None"
  by (auto simp: fallback_copy_def dest: copy_file_writes split: sum.splits)

lemma fallback_writes_output: "writes_output (fallback_copy wfa)"
  using fallback_done by (auto simp: writes_output_def)

lemma save_download_writes:
  "save_download re api url tgt fs = Done fs' \<Longrightarrow> fs' tgt \<noteq> None"
  by (auto simp: save_download_def Let_def split: sum.splits option.splits if_splits)

lemma remote_writes_output: "writes_output (translateDocument_remote re)"
  by (auto simp: writes_output_def translateDocument_remote_def read_response_def
           dest: fallback_done save_download_writes
           split: sum.splits option.splits if_splits prod.splits)

text \<open>The subprocess executor reports success on the word of the interpreter alone.\<close>

lemma subprocess_success:
  assumes "translator_present pe"
    and "translateDocument_subprocess pe src tgt sl tg dt fs = Done fs'"
  shows "\<exists>out err left.
           run_python pe src tgt (fs(tempScriptPath pe \<mapsto> script_text pe src tgt))
             = Closed (Some 0) out err left
         \<and> str_includes (trim out) ''SUCCESS:''
         \<and> fs' = left(tempScriptPath pe := None)"
  using assms
  by (auto simp: translateDocument_subprocess_def
           split: option.splits python_run.splits if_splits)

lemma subprocess_failure_message:
  assumes "translator_present pe" and "script_write_faults pe (tempScriptPath pe) = None"
    and "run_python pe src tgt (fs(tempScriptPath pe \<mapsto> script_text pe src tgt))
           = Closed code out err left"
    and "code \<noteq> Some 0 \<or> \<not> str_includes (trim out) ''SUCCESS:''"
  shows "translateDocument_subprocess pe src tgt sl tg dt fs =
           Thrown (Error (case match_error out of
                            Some m \<Rightarrow> trim m
                          | None \<Rightarrow> ''Python process exited with code '' @ show_code code @
                                    ''. Output: '' @ trim out @ '' Stderr: '' @ trim err))"
  using assms
  by (auto simp: translateDocument_subprocess_def)

subsection \<open>C3: output reference and error detail\<close>

lemma run_translation_consistent:
  assumes contract: "writes_output exec"
    and "job_rows jid w = [j0]" and "status j0 = Pending"
    and "translated_filename j0 = None" and "translated_file_path j0 = None"
    and "error_message j0 = None"
  shows "consistent_along jid (snd (run_translation exec ev df jid src ofn sl tg dt w))"
  using assms
  by (auto simp: dispatch_unfold consistent_along_def job_consistent_def writes_output_def
        mark_processing_def mark_completed_def mark_failed_def
        split: option.splits exec_result.splits)

lemma key_dispatch_consistent:
  assumes contract: "writes_output exec"
    and "job_rows jid w = [j0]" and "status j0 = Pending"
    and "translated_filename j0 = None" and "translated_file_path j0 = None"
    and "error_message j0 = None"
  shows "consistent_along jid (snd (processTranslationAsync_key exec ev df jid src ofn sl tg dt w))"
  using run_translation_consistent[OF assms, of ev df src ofn sl tg dt] assms(2-)
    key_dispatch_cases[of exec ev df jid src ofn sl tg dt w]
  by (auto simp: consistent_along_def job_consistent_def)

lemma consistent_along_skip:
  "job_rows jid w = [] \<Longrightarrow> consistent_along jid (w # tr) = consistent_along jid tr"
  by (simp add: consistent_along_def)

lemma consistent_along_empty:
  "\<forall>a \<in> set tr. job_rows jid a = [] \<Longrightarrow> consistent_along jid tr"
  by (induction tr) (simp_all add: consistent_along_def)

lemma key_request_consistent:
  assumes contract: "writes_output exec"
    and fresh: "job_rows (new_job_id ev) w = []"
  shows "consistent_along (new_job_id ev)
           (snd (snd (processTranslation_key exec ev df upl sl tg dt w)))"
  using key_request_cases[of exec ev df upl sl tg dt w]
proof (elim disjE exE conjE)
  assume "\<forall>a \<in> set (snd (snd (processTranslation_key exec ev df upl sl tg dt w))).
            translation_jobs a = translation_jobs w \<and> executions a = executions w
            \<and> files a = files w"
  then have "\<forall>a \<in> set (snd (snd (processTranslation_key exec ev df upl sl tg dt w))).
               job_rows (new_job_id ev) a = []"
    using fresh by (simp add: job_rows_def)
  then show ?thesis by (rule consistent_along_empty)
next
  fix f owner w1 w2
  assume ens: "ensure_system_user ev df w = Inr (owner, w1)"
    and ins: "insert_job (insert_job_fault df) (new_job_id ev) owner sl tg dt
                (originalname f) (upload_path f) (upload_size f) w1 = Inr w2"
    and run: "processTranslation_key exec ev df upl sl tg dt w =
           (Accepted (new_job_id ev) (Some 0),
            Some (fst (processTranslationAsync_key exec ev df (new_job_id ev) (upload_path f)
                         (originalname f) sl tg dt w2)),
            w # w1 # snd (processTranslationAsync_key exec ev df (new_job_id ev) (upload_path f)
                           (originalname f) sl tg dt w2))"
  have rows1: "job_rows (new_job_id ev) w1 = []"
    using ensure_system_user_effect(1)[OF ens] fresh by simp
  have "consistent_along (new_job_id ev)
          (snd (processTranslationAsync_key exec ev df (new_job_id ev) (upload_path f)
                 (originalname f) sl tg dt w2))"
    by (rule key_dispatch_consistent[OF contract insert_job_effect(2)[OF ins]]) simp_all
  then show ?thesis
    using run fresh rows1 by (simp add: consistent_along_skip)
qed

lemma jwt_request_consistent:
  assumes contract: "writes_output exec"
    and fresh: "job_rows (new_job_id ev) w = []"
  shows "consistent_along (new_job_id ev)
           (snd (snd (processTranslation_jwt exec ev df caller upl sl tg dt w)))"
  using jwt_request_cases[of exec ev df caller upl sl tg dt w]
proof (elim disjE exE conjE)
  assume "snd (snd (processTranslation_jwt exec ev df caller upl sl tg dt w)) = [w]"
  then show ?thesis
    using fresh by (simp add: consistent_along_def)
next
  fix c f w1
  assume ins: "insert_job (insert_job_fault df) (new_job_id ev) (userId c) sl tg dt
                (originalname f) (upload_path f) (upload_size f) w = Inr w1"
    and run: "processTranslation_jwt exec ev df caller upl sl tg dt w =
           (Accepted (new_job_id ev) None,
            Some (fst (run_translation exec ev df (new_job_id ev) (upload_path f)
                         (originalname f) sl tg dt w1)),
            w # snd (run_translation exec ev df (new_job_id ev) (upload_path f)
                       (originalname f) sl tg dt w1))"
  have "consistent_along (new_job_id ev)
          (snd (run_translation exec ev df (new_job_id ev) (upload_path f)
                 (originalname f) sl tg dt w1))"
    by (rule run_translation_consistent[OF contract insert_job_effect(2)[OF ins]]) simp_all
  then show ?thesis
    using run fresh by (simp add: consistent_along_skip)
qed

lemma run_translation_refs:
  assumes "job_rows jid w = [j0]" and "status j0 = Pending"
    and "translated_filename j0 = None" and "translated_file_path j0 = None"
    and "error_message j0 = None"
  shows "refs_match_along jid (snd (run_translation exec ev df jid src ofn sl tg dt w))"
  using assms
  by (auto simp: dispatch_unfold refs_match_along_def rows_along_def refs_match_status_def
        mark_processing_def mark_completed_def mark_failed_def
        split: option.splits exec_result.splits)

lemma key_dispatch_refs:
  assumes "job_rows jid w = [j0]" and "status j0 = Pending"
    and "translated_filename j0 = None" and "translated_file_path j0 = None"
    and "error_message j0 = None"
  shows "refs_match_along jid (snd (processTranslationAsync_key exec ev df jid src ofn sl tg dt w))"
  using run_translation_refs[OF assms, of exec ev df src ofn sl tg dt] assms
    key_dispatch_cases[of exec ev df jid src ofn sl tg dt w]
  by (auto simp: refs_match_along_def rows_along_def refs_match_status_def)

lemma refs_match_along_skip:
  "job_rows jid w = [] \<Longrightarrow> refs_match_along jid (w # tr) = refs_match_along jid tr"
  by (simp add: refs_match_along_def rows_along_def)

lemma key_request_refs:
  assumes fresh: "job_rows (new_job_id ev) w = []"
  shows "refs_match_along (new_job_id ev)
           (snd (snd (processTranslation_key exec ev df upl sl tg dt w)))"
  using key_request_cases[of exec ev df upl sl tg dt w]
proof (elim disjE exE conjE)
  assume "\<forall>a \<in> set (snd (snd (processTranslation_key exec ev df upl sl tg dt w))).
            translation_jobs a = translation_jobs w \<and> executions a = executions w
            \<and> files a = files w"
  then have "\<forall>a \<in> set (snd (snd (processTranslation_key exec ev df upl sl tg dt w))).
               job_rows (new_job_id ev) a = []"
    using fresh by (simp add: job_rows_def)
  then show ?thesis
    using rows_along_empty[of "snd (snd (processTranslation_key exec ev df upl sl tg dt w))"
        "new_job_id ev"]
    by (simp add: refs_match_along_def)
next
  fix f owner w1 w2
  assume ens: "ensure_system_user ev df w = Inr (owner, w1)"
    and ins: "insert_job (insert_job_fault df) (new_job_id ev) owner sl tg dt
                (originalname f) (upload_path f) (upload_size f) w1 = Inr w2"
    and run: "processTranslation_key exec ev df upl sl tg dt w =
           (Accepted (new_job_id ev) (Some 0),
            Some (fst (processTranslationAsync_key exec ev df (new_job_id ev) (upload_path f)
                         (originalname f) sl tg dt w2)),
            w # w1 # snd (processTranslationAsync_key exec ev df (new_job_id ev) (upload_path f)
                           (originalname f) sl tg dt w2))"
  have rows1: "job_rows (new_job_id ev) w1 = []"
    using ensure_system_user_effect(1)[OF ens] fresh by simp
  have "refs_match_along (new_job_id ev)
          (snd (processTranslationAsync_key exec ev df (new_job_id ev) (upload_path f)
                 (originalname f) sl tg dt w2))"
    by (rule key_dispatch_refs[OF insert_job_effect(2)[OF ins]]) simp_all
  then show ?thesis
    using run fresh rows1 by (simp add: refs_match_along_skip)
qed

lemma jwt_request_refs:
  assumes fresh: "job_rows (new_job_id ev) w = []"
  shows "refs_match_along (new_job_id ev)
           (snd (snd (processTranslation_jwt exec ev df caller upl sl tg dt w)))"
  using jwt_request_cases[of exec ev df caller upl sl tg dt w]
proof (elim disjE exE conjE)
  assume "snd (snd (processTranslation_jwt exec ev df caller upl sl tg dt w)) = [w]"
  then show ?thesis
    using fresh by (simp add: refs_match_along_def rows_along_def)
next
  fix c f w1
  assume ins: "insert_job (insert_job_fault df) (new_job_id ev) (userId c) sl tg dt
                (originalname f) (upload_path f) (upload_size f) w = Inr w1"
    and run: "processTranslation_jwt exec ev df caller upl sl tg dt w =
           (Accepted (new_job_id ev) None,
            Some (fst (run_translation exec ev df (new_job_id ev) (upload_path f)
                         (originalname f) sl tg dt w1)),
            w # snd (run_translation exec ev df (new_job_id ev) (upload_path f)
                       (originalname f) sl tg dt w1))"
  have "refs_match_along (new_job_id ev)
          (snd (run_translation exec ev df (new_job_id ev) (upload_path f)
                 (originalname f) sl tg dt w1))"
    by (rule run_translation_refs[OF insert_job_effect(2)[OF ins]]) simp_all
  then show ?thesis
    using run fresh by (simp add: refs_match_along_skip)
qed

text \<open>The subprocess executor is not among the executors that always write their
  target: the sample interpreter reports success and leaves the target path empty.\<close>

lemma subprocess_may_skip_output: "\<not> writes_output (translateDocument_subprocess demo_python)"
proof
  assume "writes_output (translateDocument_subprocess demo_python)"
  then have "\<And>fs'. translateDocument_subprocess demo_python ''/in/a.txt'' ''/out/a.txt'' ''en''
                ''es'' ''general'' (files demo_world) = Done fs' \<Longrightarrow> fs' ''/out/a.txt'' \<noteq> None"
    unfolding writes_output_def by blast
  moreover have "is_done (translateDocument_subprocess demo_python ''/in/a.txt'' ''/out/a.txt''
                   ''en'' ''es'' ''general'' (files demo_world))"
    by code_simp
  moreover have "written_at (translateDocument_subprocess demo_python ''/in/a.txt'' ''/out/a.txt''
                   ''en'' ''es'' ''general'' (files demo_world)) ''/out/a.txt'' = None"
    by code_simp
  ultimately show False
    by (auto simp: is_done_def written_at_def split: exec_result.splits)
qed

text \<open>
  C3, as the code has it. In every state a creating request passes through, and with any
  executor whatever (the subprocess executor included), each row of the job the request
  created has its translated file name and path set exactly when its status is completed
  and its error message set exactly when its status is failed. If moreover the executor,
  whenever it reports success, has left bytes at the target path it was given, then a
  completed row points at a path that holds bytes in storage: the mock copy, the
  fallback copy and the remote-API executor always do (lemmas above); the subprocess
  executor takes the interpreter's word for it. Both controllers, any database faults.
\<close>

theorem output_iff_completed_error_iff_failed:
  assumes "job_rows (new_job_id ev) w = []"
  shows "refs_match_along (new_job_id ev)
           (snd (snd (processTranslation_key exec ev df upl sl tg dt w)))
       \<and> refs_match_along (new_job_id ev)
           (snd (snd (processTranslation_jwt exec ev df caller upl sl tg dt w)))
       \<and> (writes_output exec \<longrightarrow>
            consistent_along (new_job_id ev)
              (snd (snd (processTranslation_key exec ev df upl sl tg dt w)))
          \<and> consistent_along (new_job_id ev)
              (snd (snd (processTranslation_jwt exec ev df caller upl sl tg dt w))))"
  using key_request_refs[OF assms, of exec df upl sl tg dt]
    jwt_request_refs[OF assms, of exec df caller upl sl tg dt]
    key_request_consistent[OF _ assms, of exec df upl sl tg dt]
    jwt_request_consistent[OF _ assms, of exec df caller upl sl tg dt]
  by blast

theorem output_iff_completed_error_iff_failed_witness:
  "job_rows (new_job_id demo_env) demo_world = []
   \<and> refs_match_along (new_job_id demo_env)
        (snd (snd (processTranslation_key (translateDocument_subprocess demo_python) demo_env
           no_faults (Some demo_upload) ''en'' ''es'' ''general'' demo_world)))
   \<and> map status (job_rows ''j1'' (last (snd (snd (processTranslation_key
        (translateDocument_subprocess demo_python) demo_env no_faults (Some demo_upload)
        ''en'' ''es'' ''general'' demo_world))))) = [Completed]
   \<and> refs_match_along (new_job_id demo_env)
        (snd (snd (processTranslation_key always_fails demo_env
           no_faults (Some demo_upload) ''en'' ''es'' ''general'' demo_world)))
   \<and> map error_message (job_rows ''j1'' (last (snd (snd (processTranslation_key
        always_fails demo_env no_faults (Some demo_upload)
        ''en'' ''es'' ''general'' demo_world))))) = [Some ''remote API returned 500'']
   \<and> writes_output (translateDocument_mock no_write_faults)
   \<and> consistent_along (new_job_id demo_env)
        (snd (snd (processTranslation_key (translateDocument_mock no_write_faults) demo_env
           no_faults (Some demo_upload) ''en'' ''es'' ''general'' demo_world)))
   \<and> map translated_file_path (job_rows ''j1''
        (last (snd (snd (processTranslation_key (translateDocument_mock no_write_faults) demo_env
           no_faults (Some demo_upload) ''en'' ''es'' ''general'' demo_world)))))
       = [Some ''/srv/translated/translated_j1.txt'']
   \<and> files (last (snd (snd (processTranslation_key (translateDocument_mock no_write_faults)
           demo_env no_faults (Some demo_upload) ''en'' ''es'' ''general'' demo_world))))
        ''/srv/translated/translated_j1.txt'' = Some ''hello''"
proof -
  have fresh: "job_rows (new_job_id demo_env) demo_world = []"
    by code_simp
  have done_sub: "map status (job_rows ''j1'' (last (snd (snd (processTranslation_key
        (translateDocument_subprocess demo_python) demo_env no_faults (Some demo_upload)
        ''en'' ''es'' ''general'' demo_world))))) = [Completed]"
    by code_simp
  have failed_msg: "map error_message (job_rows ''j1'' (last (snd (snd (processTranslation_key
        always_fails demo_env no_faults (Some demo_upload)
        ''en'' ''es'' ''general'' demo_world))))) = [Some ''remote API returned 500'']"
    by code_simp
  have out: "map translated_file_path (job_rows ''j1''
        (last (snd (snd (processTranslation_key (translateDocument_mock no_write_faults) demo_env
           no_faults (Some demo_upload) ''en'' ''es'' ''general'' demo_world)))))
       = [Some ''/srv/translated/translated_j1.txt'']"
    by code_simp
  have bytes: "files (last (snd (snd (processTranslation_key (translateDocument_mock no_write_faults)
           demo_env no_faults (Some demo_upload) ''en'' ''es'' ''general'' demo_world))))
        ''/srv/translated/translated_j1.txt'' = Some ''hello''"
    by code_simp
  have contract: "writes_output (translateDocument_mock no_write_faults)"
    by (rule mock_writes_output)
  show ?thesis
    using fresh done_sub failed_msg out bytes contract
      output_iff_completed_error_iff_failed[OF fresh,
        where exec = "translateDocument_subprocess demo_python" and df = no_faults
        and upl = "Some demo_upload" and sl = "''en''" and tg = "''es''" and dt = "''general''"]
      output_iff_completed_error_iff_failed[OF fresh,
        where exec = always_fails and df = no_faults
        and upl = "Some demo_upload" and sl = "''en''" and tg = "''es''" and dt = "''general''"]
      output_iff_completed_error_iff_failed[OF fresh,
        where exec = "translateDocument_mock no_write_faults" and df = no_faults
        and upl = "Some demo_upload" and sl = "''en''" and tg = "''es''" and dt = "''general''"]
    by simp
qed

theorem completed_without_file_counterexample:
  "map status (job_rows ''j1'' (last (snd (snd (processTranslation_key
       (translateDocument_subprocess demo_python) demo_env no_faults (Some demo_upload)
       ''en'' ''es'' ''general'' demo_world))))) = [Completed]
   \<and> map translated_file_path (job_rows ''j1'' (last (snd (snd (processTranslation_key
       (translateDocument_subprocess demo_python) demo_env no_faults (Some demo_upload)
       ''en'' ''es'' ''general'' demo_world)))))
     = [Some ''/srv/translated/translated_j1.txt'']
   \<and> files (last (snd (snd (processTranslation_key
       (translateDocument_subprocess demo_python) demo_env no_faults (Some demo_upload)
       ''en'' ''es'' ''general'' demo_world)))) ''/srv/translated/translated_j1.txt'' = None
   \<and> downloadFile_key no_faults ''j1'' (last (snd (snd (processTranslation_key
       (translateDocument_subprocess demo_python) demo_env no_faults (Some demo_upload)
       ''en'' ''es'' ''general'' demo_world))))
     = Failure 404 ''Translated file not found on server''"
  by code_simp

subsection \<open>C5: faults during dispatch\<close>





text \<open>The other way a job is left behind: the dispatch of the API-key controller gives
  up, without a word to the job, when its own lookup of the system user throws.\<close>

lemma lookup_fault_leaves_pending:
  "fst (snd (processTranslation_key (translateDocument_mock no_write_faults) demo_env
        dispatch_lookup_fails (Some demo_upload) ''en'' ''es'' ''general'' demo_world))
     = Some Resolved
   \<and> status_history ''j1'' (snd (snd (processTranslation_key
        (translateDocument_mock no_write_faults) demo_env dispatch_lookup_fails
        (Some demo_upload) ''en'' ''es'' ''general'' demo_world)))
     = [Pending]"
  by code_simp

subsection \<open>C2: how often the executor runs\<close>

lemma run_translation_executes:
  "executions (last (snd (run_translation exec ev df jid src ofn sl tg dt w))) =
     (if set_processing_fault df = None
      then executions w @ [(src, translatedPath_of ev jid ofn)] else executions w)"
  by (auto simp: dispatch_unfold split: option.splits exec_result.splits)

lemma key_dispatch_executes:
  "executions (last (snd (processTranslationAsync_key exec ev df jid src ofn sl tg dt w)))
     \<in> {executions w, executions w @ [(src, translatedPath_of ev jid ofn)]}"
  using key_dispatch_cases[of exec ev df jid src ofn sl tg dt w]
    run_translation_executes[of exec ev df jid src ofn sl tg dt w]
  by (auto split: if_splits)

lemma run_translation_nonempty: "snd (run_translation exec ev df jid src ofn sl tg dt w) \<noteq> []"
  by (auto simp: dispatch_unfold split: option.splits exec_result.splits)

lemma key_dispatch_nonempty:
  "snd (processTranslationAsync_key exec ev df jid src ofn sl tg dt w) \<noteq> []"
  using key_dispatch_cases[of exec ev df jid src ofn sl tg dt w]
    run_translation_nonempty[of exec ev df jid src ofn sl tg dt w]
  by auto

lemma key_request_executes:
  "length (executions (last (snd (snd (processTranslation_key exec ev df upl sl tg dt w)))))
     \<le> Suc (length (executions w))"
  using key_request_cases[of exec ev df upl sl tg dt w]
proof (elim disjE exE conjE)
  assume "snd (snd (processTranslation_key exec ev df upl sl tg dt w)) \<noteq> []"
    and "\<forall>a \<in> set (snd (snd (processTranslation_key exec ev df upl sl tg dt w))).
            translation_jobs a = translation_jobs w \<and> executions a = executions w
            \<and> files a = files w"
  then show ?thesis
    using last_in_set[of "snd (snd (processTranslation_key exec ev df upl sl tg dt w))"]
    by simp
next
  fix f owner w1 w2
  assume ens: "ensure_system_user ev df w = Inr (owner, w1)"
    and ins: "insert_job (insert_job_fault df) (new_job_id ev) owner sl tg dt
                (originalname f) (upload_path f) (upload_size f) w1 = Inr w2"
    and run: "processTranslation_key exec ev df upl sl tg dt w =
           (Accepted (new_job_id ev) (Some 0),
            Some (fst (processTranslationAsync_key exec ev df (new_job_id ev) (upload_path f)
                         (originalname f) sl tg dt w2)),
            w # w1 # snd (processTranslationAsync_key exec ev df (new_job_id ev) (upload_path f)
                           (originalname f) sl tg dt w2))"
  have "executions w2 = executions w"
    using insert_job_effect(5)[OF ins] ensure_system_user_effect(2)[OF ens] by simp
  then show ?thesis
    using run
      key_dispatch_executes[of exec ev df "new_job_id ev" "upload_path f" "originalname f" sl tg dt w2]
      key_dispatch_nonempty[of exec ev df "new_job_id ev" "upload_path f" "originalname f" sl tg dt w2]
    by auto
qed

lemma jwt_request_executes:
  "length (executions (last (snd (snd (processTranslation_jwt exec ev df caller upl sl tg dt w)))))
     \<le> Suc (length (executions w))"
  using jwt_request_cases[of exec ev df caller upl sl tg dt w]
proof (elim disjE exE conjE)
  assume "snd (snd (processTranslation_jwt exec ev df caller upl sl tg dt w)) = [w]"
  then show ?thesis by simp
next
  fix c f w1
  assume ins: "insert_job (insert_job_fault df) (new_job_id ev) (userId c) sl tg dt
                (originalname f) (upload_path f) (upload_size f) w = Inr w1"
    and run: "processTranslation_jwt exec ev df caller upl sl tg dt w =
           (Accepted (new_job_id ev) None,
            Some (fst (run_translation exec ev df (new_job_id ev) (upload_path f)
                         (originalname f) sl tg dt w1)),
            w # snd (run_translation exec ev df (new_job_id ev) (upload_path f)
                       (originalname f) sl tg dt w1))"
  show ?thesis
    using run insert_job_effect(5)[OF ins]
      run_translation_executes[of exec ev df "new_job_id ev" "upload_path f" "originalname f" sl tg dt w1]
      run_translation_nonempty[of exec ev df "new_job_id ev" "upload_path f" "originalname f" sl tg dt w1]
    by auto
qed

text \<open>
  C2, as the code has it. The dispatch never reads the job's status: whatever state the
  job is in, a dispatch whose update to processing is persisted calls the executor once
  more (for the API-key controller: once the system user has been found). What keeps a
  job from being executed twice is the caller: a creating request adds at most one call
  to the executor, for the job it has just inserted.
\<close>

theorem dispatch_runs_executor_each_time:
  "(set_processing_fault df = None \<longrightarrow>
      executions (last (snd (processTranslationAsync_jwt exec ev df jid src ofn sl tg dt w)))
        = executions w @ [(src, translatedPath_of ev jid ofn)]
    \<and> (select_user (dispatch_lookup_fault df) system_email w = Inr (u # us) \<longrightarrow>
        executions (last (snd (processTranslationAsync_key exec ev df jid src ofn sl tg dt w)))
          = executions w @ [(src, translatedPath_of ev jid ofn)]))
   \<and> length (executions (last (snd (snd (processTranslation_key exec ev df upl sl tg dt w)))))
       \<le> Suc (length (executions w))
   \<and> length (executions (last (snd (snd (processTranslation_jwt exec ev df caller upl sl tg dt w)))))
       \<le> Suc (length (executions w))"
  using run_translation_executes[of exec ev df jid src ofn sl tg dt w]
    key_request_executes[of exec ev df upl sl tg dt w]
    jwt_request_executes[of exec ev df caller upl sl tg dt w]
  by (simp add: processTranslationAsync_jwt_def processTranslationAsync_key_def)

theorem dispatch_runs_executor_each_time_witness:
  "set_processing_fault no_faults = None
   \<and> select_user (dispatch_lookup_fault no_faults) system_email demo_done
       = Inr [\<lparr>uid = ''u0'', user_email = system_email, user_role = ''user''\<rparr>]
   \<and> map status (job_rows ''j1'' demo_done) = [Completed]
   \<and> executions demo_done = [(''/in/a.txt'', ''/srv/translated/translated_j1.txt'')]
   \<and> executions (last (snd (processTranslationAsync_key (translateDocument_mock no_write_faults)
        demo_env no_faults ''j1'' ''/in/a.txt'' ''a.txt'' ''en'' ''es'' ''general'' demo_done)))
       = executions demo_done @ [(''/in/a.txt'', translatedPath_of demo_env ''j1'' ''a.txt'')]"
proof -
  have h1: "set_processing_fault no_faults = None"
    by code_simp
  have h2: "select_user (dispatch_lookup_fault no_faults) system_email demo_done
       = Inr [\<lparr>uid = ''u0'', user_email = system_email, user_role = ''user''\<rparr>]"
    by code_simp
  have h3: "map status (job_rows ''j1'' demo_done) = [Completed]"
    by code_simp
  have h4: "executions demo_done = [(''/in/a.txt'', ''/srv/translated/translated_j1.txt'')]"
    by code_simp
  show ?thesis
    using h1 h2 h3 h4
      dispatch_runs_executor_each_time[where df = no_faults and w = demo_done
        and u = "\<lparr>uid = ''u0'', user_email = system_email, user_role = ''user''\<rparr>"
        and us = "[]" and exec = "translateDocument_mock no_write_faults" and ev = demo_env
        and jid = "''j1''" and src = "''/in/a.txt''" and ofn = "''a.txt''" and sl = "''en''"
        and tg = "''es''" and dt = "''general''"]
    by simp
qed

theorem second_dispatch_counterexample:
  "executions (last (dispatch_twice (translateDocument_mock no_write_faults) demo_env no_faults
      ''j1'' ''/in/a.txt'' ''a.txt'' ''en'' ''es'' ''general'' demo_pending))
     = [(''/in/a.txt'', ''/srv/translated/translated_j1.txt''),
        (''/in/a.txt'', ''/srv/translated/translated_j1.txt'')]
   \<and> status_history ''j1'' (dispatch_twice (translateDocument_mock no_write_faults) demo_env
      no_faults ''j1'' ''/in/a.txt'' ''a.txt'' ''en'' ''es'' ''general'' demo_pending)
     = [Pending, Processing, Completed, Processing, Completed]"
  by code_simp

subsection \<open>C9: the reported progress\<close>

text \<open>
  C9, as the code has it. The progress sent by the status endpoint and by the history of
  the API-key controllers is computed from the status alone and is one of 0, 50 and 100:
  100 for completed, 50 for processing, and 0 for every other status, so 0 for pending
  and 0 for failed as well. It does not decrease along pending, processing, completed; on
  the transition from processing to failed it falls from 50 to 0.
\<close>

theorem progress_three_point:
  assumes "getJobStatus_key df jobId w = StatusOk d"
    and "getTranslationHistory_key df' lq oq w' = HistoryOk js pg"
  shows "progress d = Some (progress_of (view_status d))
       \<and> map progress js = map (\<lambda>v. Some (progress_of (view_status v))) js
       \<and> progress_of s \<in> {0, 50, 100}
       \<and> progress_of Pending = 0 \<and> progress_of Processing = 50
       \<and> progress_of Completed = 100 \<and> progress_of Failed = 0
       \<and> progress_of Pending \<le> progress_of Processing
       \<and> progress_of Processing \<le> progress_of Completed
       \<and> progress_of Failed < progress_of Processing"
proof -
  have "progress d = Some (progress_of (view_status d))"
    using assms(1)
    by (auto simp: getJobStatus_key_def detail_of_def summary_of_def job_summary.defs
             split: sum.splits option.splits list.splits)
  moreover have "map progress js = map (\<lambda>v. Some (progress_of (view_status v))) js"
    using assms(2)
    by (auto simp: getTranslationHistory_key_def history_response_def summary_of_def Let_def
             split: sum.splits option.splits)
  moreover have "progress_of s \<in> {0, 50, 100}"
    by (simp add: progress_of_def)
  ultimately show ?thesis
    by (simp add: progress_of_def)
qed

theorem progress_three_point_witness:
  "getJobStatus_key no_faults ''j0'' demo_world = StatusOk (detail_of True (demo_job ''j0'' ''u9'' 3 Completed))
   \<and> getTranslationHistory_key no_faults None None demo_pending =
       HistoryOk (map (summary_of True) [demo_job ''j1'' ''u0'' 7 Pending, demo_job ''j0'' ''u9'' 3 Completed])
         \<lparr>page_limit = 50, page_offset = 0, page_total = 2\<rparr>
   \<and> progress (detail_of True (demo_job ''j0'' ''u9'' 3 Completed)) = Some 100
   \<and> map progress (map (summary_of True) [demo_job ''j1'' ''u0'' 7 Pending, demo_job ''j0'' ''u9'' 3 Completed])
       = [Some 0, Some 100]"
proof -
  have h1: "getJobStatus_key no_faults ''j0'' demo_world
              = StatusOk (detail_of True (demo_job ''j0'' ''u9'' 3 Completed))"
    by code_simp
  have h2: "getTranslationHistory_key no_faults None None demo_pending =
       HistoryOk (map (summary_of True) [demo_job ''j1'' ''u0'' 7 Pending, demo_job ''j0'' ''u9'' 3 Completed])
         \<lparr>page_limit = 50, page_offset = 0, page_total = 2\<rparr>"
    by code_simp
  have h3: "view_status (detail_of True (demo_job ''j0'' ''u9'' 3 Completed)) = Completed"
    by code_simp
  have h4: "map view_status (map (summary_of True)
              [demo_job ''j1'' ''u0'' 7 Pending, demo_job ''j0'' ''u9'' 3 Completed])
            = [Pending, Completed]"
    by code_simp
  show ?thesis
    using h1 h2 h3 h4 progress_three_point[OF h1 h2, of Pending]
    by (simp add: progress_of_def)
qed

theorem progress_drops_counterexample:
  "progress_history no_faults ''j1''
     (snd (processTranslationAsync_key always_fails demo_env no_faults ''j1'' ''/in/a.txt''
        ''a.txt'' ''en'' ''es'' ''general'' demo_pending))
   = [Some 0, Some 50, Some 0]"
  by code_simp

subsection \<open>C10: the total of a history page\<close>

lemma select_history_length:
  assumes "select_history fault owner_ph limit_ph offset_ph vals w = Inr rows"
    and "placeholder limit_ph vals = Some (SqlInt l)"
  shows "int (length rows) \<le> l"
  using assms
  by (auto simp: select_history_def Let_def
           split: option.splits sql_value.splits if_splits)

lemma history_response_total:
  assumes "history_response wp lim off res = HistoryOk js pg"
  shows "page_total pg = length js \<and> page_limit pg = lim \<and> page_offset pg = off
         \<and> (\<exists>rows. res = Inr rows \<and> length js = length rows)"
  using assms
  by (auto simp: history_response_def Let_def split: sum.splits)

lemma remote_history_always_fails:
  "getTranslationHistory_remote df lq oq w \<in>
     {Failure 500 ''Failed to fetch translation history'', Failure 404 ''System user not found''}"
  by (auto simp: getTranslationHistory_remote_def history_response_def select_history_def
        placeholder_def Let_def split: sum.splits option.splits)

lemma history_page_bounds:
  assumes "r \<in> {getTranslationHistory_jwt df caller lq oq w,
                getTranslationHistory_key df lq oq w,
                getTranslationHistory_remote df lq oq w}"
    and "r = HistoryOk js pg"
  shows "page_total pg = length js
       \<and> int (page_total pg) \<le> page_limit pg
       \<and> page_limit pg = or_default lq 50
       \<and> page_offset pg = or_default oq 0"
proof -
  consider (jwt) "getTranslationHistory_jwt df caller lq oq w = HistoryOk js pg"
    | (key) "getTranslationHistory_key df lq oq w = HistoryOk js pg"
    | (remote) "getTranslationHistory_remote df lq oq w = HistoryOk js pg"
    using assms by auto
  then show ?thesis
  proof cases
    case jwt
    then obtain c where c: "caller = Some c"
      by (cases caller) (simp_all add: getTranslationHistory_jwt_def)
    have resp: "history_response False (or_default lq 50) (or_default oq 0)
            (select_history (select_job_fault df) (Some 1) 2 3
               [SqlText (userId c), SqlInt (or_default lq 50), SqlInt (or_default oq 0)] w)
          = HistoryOk js pg"
      using jwt c by (simp add: getTranslationHistory_jwt_def Let_def)
    from history_response_total[OF resp] obtain rows where
      tot: "page_total pg = length js" "page_limit pg = or_default lq 50"
           "page_offset pg = or_default oq 0"
      and rows: "select_history (select_job_fault df) (Some 1) 2 3
               [SqlText (userId c), SqlInt (or_default lq 50), SqlInt (or_default oq 0)] w
               = Inr rows" "length js = length rows"
      by auto
    have "int (length rows) \<le> or_default lq 50"
      by (rule select_history_length[OF rows(1)]) (simp add: placeholder_def)
    then show ?thesis using tot rows(2) by simp
  next
    case key
    then obtain sysId where resp: "history_response True (or_default lq 50) (or_default oq 0)
            (select_history (select_job_fault df) None 1 2
               [SqlInt (or_default lq 50), SqlInt (or_default oq 0)] w)
          = HistoryOk js pg"
      by (auto simp: getTranslationHistory_key_def Let_def split: sum.splits option.splits)
    from history_response_total[OF resp] obtain rows where
      tot: "page_total pg = length js" "page_limit pg = or_default lq 50"
           "page_offset pg = or_default oq 0"
      and rows: "select_history (select_job_fault df) None 1 2
               [SqlInt (or_default lq 50), SqlInt (or_default oq 0)] w = Inr rows"
               "length js = length rows"
      by auto
    have "int (length rows) \<le> or_default lq 50"
      by (rule select_history_length[OF rows(1)]) (simp add: placeholder_def)
    then show ?thesis using tot rows(2) by simp
  next
    case remote
    then show ?thesis
      using remote_history_always_fails[of df lq oq w] by simp
  qed
qed

text \<open>
  C10, as the code has it. Whenever \<open>getTranslationHistory\<close> answers with a page (JWT
  controller, API-key controller, remote-API controller), \<open>pagination.total\<close> is the
  number of jobs in that page, not the number of jobs the caller has, and it is at most
  the limit in force, which the response echoes in \<open>pagination.limit\<close>. The limit in
  force is the requested limit when that parses to a number other than zero; it is 50
  when the limit is missing, not a number, or zero. So total is at most a non-zero
  requested limit, and at most 50 otherwise: a requested limit of 0 comes back with up
  to 50 jobs.
\<close>

theorem history_total_is_page_length:
  assumes "r \<in> {getTranslationHistory_jwt df caller lq oq w,
                getTranslationHistory_key df lq oq w,
                getTranslationHistory_remote df lq oq w}"
    and "r = HistoryOk js pg"
  shows "page_total pg = length js
       \<and> int (page_total pg) \<le> page_limit pg
       \<and> page_limit pg = or_default lq 50
       \<and> page_offset pg = or_default oq 0
       \<and> (lq = Some n \<and> n \<noteq> 0 \<longrightarrow> page_limit pg = n \<and> int (page_total pg) \<le> n)
       \<and> (lq = None \<or> lq = Some 0 \<longrightarrow> page_limit pg = 50 \<and> page_total pg \<le> 50)"
  using history_page_bounds[OF assms]
  by (auto simp: or_default_def)

theorem history_total_is_page_length_witness:
  "getTranslationHistory_jwt no_faults (Some alice) (Some 2) None demo_history
     = HistoryOk (map (summary_of False) [demo_job ''a3'' ''alice'' 4 Pending, demo_job ''a2'' ''alice'' 3 Failed])
         \<lparr>page_limit = 2, page_offset = 0, page_total = 2\<rparr>
   \<and> length (filter (\<lambda>j. user_id j = ''alice'') (translation_jobs demo_history)) = 3
   \<and> page_total \<lparr>page_limit = 2, page_offset = 0, page_total = 2\<rparr>
       = length (map (summary_of False) [demo_job ''a3'' ''alice'' 4 Pending, demo_job ''a2'' ''alice'' 3 Failed])
   \<and> int (page_total \<lparr>page_limit = 2, page_offset = 0, page_total = 2\<rparr>) \<le> 2
   \<and> getTranslationHistory_jwt no_faults (Some alice) (Some 0) None demo_history
     = HistoryOk (map (summary_of False) [demo_job ''a3'' ''alice'' 4 Pending,
          demo_job ''a2'' ''alice'' 3 Failed, demo_job ''a1'' ''alice'' 1 Completed])
         \<lparr>page_limit = 50, page_offset = 0, page_total = 3\<rparr>
   \<and> page_limit \<lparr>page_limit = 50, page_offset = 0, page_total = 3\<rparr> = 50
   \<and> page_total \<lparr>page_limit = 50, page_offset = 0, page_total = 3\<rparr> \<le> 50"
proof -
  have h: "getTranslationHistory_jwt no_faults (Some alice) (Some 2) None demo_history
     = HistoryOk (map (summary_of False) [demo_job ''a3'' ''alice'' 4 Pending, demo_job ''a2'' ''alice'' 3 Failed])
         \<lparr>page_limit = 2, page_offset = 0, page_total = 2\<rparr>"
    by code_simp
  have z: "getTranslationHistory_jwt no_faults (Some alice) (Some 0) None demo_history
     = HistoryOk (map (summary_of False) [demo_job ''a3'' ''alice'' 4 Pending,
          demo_job ''a2'' ''alice'' 3 Failed, demo_job ''a1'' ''alice'' 1 Completed])
         \<lparr>page_limit = 50, page_offset = 0, page_total = 3\<rparr>"
    by code_simp
  have n: "length (filter (\<lambda>j. user_id j = ''alice'') (translation_jobs demo_history)) = 3"
    by code_simp
  show ?thesis
    using h z n
      history_total_is_page_length[where r = "getTranslationHistory_jwt no_faults (Some alice) (Some 2) None demo_history"
        and df = no_faults and caller = "Some alice" and lq = "Some 2" and oq = None
        and w = demo_history and n = 2, OF _ h]
      history_total_is_page_length[where r = "getTranslationHistory_jwt no_faults (Some alice) (Some 0) None demo_history"
        and df = no_faults and caller = "Some alice" and lq = "Some 0" and oq = None
        and w = demo_history, OF _ z]
    by simp
qed

theorem zero_limit_counterexample:
  "getTranslationHistory_jwt no_faults (Some alice) (Some 0) None demo_history
     = HistoryOk (map (summary_of False) [demo_job ''a3'' ''alice'' 4 Pending,
          demo_job ''a2'' ''alice'' 3 Failed, demo_job ''a1'' ''alice'' 1 Completed])
         \<lparr>page_limit = 50, page_offset = 0, page_total = 3\<rparr>
   \<and> \<not> int (page_total \<lparr>page_limit = 50, page_offset = 0, page_total = 3\<rparr>) \<le> 0"
  by code_simp

subsection \<open>C7: retrieving a file that is not there\<close>

lemma send_file_cases:
  "send_file j w =
     (if status j \<noteq> Completed then not_ready (status j)
      else if file_missing j w then Failure 404 ''Translated file not found on server''
      else Download (the (translated_file_path j)) (translated_filename j))"
  by (auto simp: send_file_def not_ready_def file_missing_def split: option.splits)

lemma downloadFile_key_found:
  assumes "system_user_found df w" and "select_job_fault df = None"
  shows "downloadFile_key df jobId w =
           (case job_rows jobId w of
              [] \<Rightarrow> Failure 404 ''Translation job not found''
            | j # js \<Rightarrow> send_file j w)"
  using assms
  by (auto simp: downloadFile_key_def system_user_found_def select_job_def
           split: sum.splits option.splits list.splits)

lemma downloadFile_jwt_found:
  assumes "select_job_fault df = None"
  shows "downloadFile_jwt df (Some c) jobId w =
           (case job_rows jobId w of
              [] \<Rightarrow> Failure 404 ''Translation job not found''
            | j # js \<Rightarrow>
                if user_id j \<noteq> userId c \<and> role c \<noteq> ''admin''
                then Failure 403 ''You do not have permission to access this file''
                else send_file j w)"
  using assms
  by (auto simp: downloadFile_jwt_def select_job_def Let_def
           split: sum.splits option.splits list.splits)

lemma download_responses:
  assumes "select_job_fault df = None" and "job_rows jobId w = j # js"
    and "system_user_found df w" and "user_id j = userId c \<or> role c = ''admin''"
    and "job_rows unknownId w = []"
  shows "(status j \<noteq> Completed \<longrightarrow>
            downloadFile_key df jobId w = not_ready (status j)
          \<and> downloadFile_jwt df (Some c) jobId w = not_ready (status j))
       \<and> (status j = Completed \<and> file_missing j w \<longrightarrow>
            downloadFile_key df jobId w = Failure 404 ''Translated file not found on server''
          \<and> downloadFile_jwt df (Some c) jobId w = Failure 404 ''Translated file not found on server'')
       \<and> downloadFile_key df unknownId w = Failure 404 ''Translation job not found''
       \<and> downloadFile_jwt df (Some c) unknownId w = Failure 404 ''Translation job not found''"
  using assms
  by (auto simp: downloadFile_key_found downloadFile_jwt_found send_file_cases)

text \<open>
  C7, as the code has it. Take a job id that has a row, with the database answering.
  Behind the API key (system user present), and behind JWT sessions for the owner or an
  admin, \<open>downloadFile\<close> answers a row that is not completed with 400 and the message
  naming the current status. It answers a completed row whose file is not in storage
  with 404 "Translated file not found on server". An id without a row gets
  404 "Translation job not found". The missing file and the unknown id go out with the
  same HTTP status, 404; the two responses differ, and they differ in their message
  only. There is no error of its own for the missing file.
\<close>

theorem download_not_ready_or_file_missing:
  assumes "select_job_fault df = None" and "job_rows jobId w = j # js"
    and "system_user_found df w" and "user_id j = userId c \<or> role c = ''admin''"
    and "job_rows unknownId w = []"
  shows "(status j \<noteq> Completed \<longrightarrow>
            downloadFile_key df jobId w = not_ready (status j)
          \<and> downloadFile_jwt df (Some c) jobId w = not_ready (status j)
          \<and> http_status (downloadFile_key df jobId w) = 400
          \<and> http_status (downloadFile_jwt df (Some c) jobId w) = 400)
       \<and> (status j = Completed \<and> file_missing j w \<longrightarrow>
            downloadFile_key df jobId w = Failure 404 ''Translated file not found on server''
          \<and> downloadFile_jwt df (Some c) jobId w = Failure 404 ''Translated file not found on server''
          \<and> http_status (downloadFile_key df jobId w) = http_status (downloadFile_key df unknownId w)
          \<and> http_status (downloadFile_jwt df (Some c) jobId w)
              = http_status (downloadFile_jwt df (Some c) unknownId w)
          \<and> downloadFile_key df jobId w \<noteq> downloadFile_key df unknownId w
          \<and> downloadFile_jwt df (Some c) jobId w \<noteq> downloadFile_jwt df (Some c) unknownId w)
       \<and> downloadFile_key df unknownId w = Failure 404 ''Translation job not found''
       \<and> downloadFile_jwt df (Some c) unknownId w = Failure 404 ''Translation job not found''
       \<and> http_status (downloadFile_key df unknownId w) = 404
       \<and> http_status (downloadFile_jwt df (Some c) unknownId w) = 404"
  using download_responses[OF assms]
  by (auto simp: http_status_def not_ready_def)

theorem download_not_ready_or_file_missing_witness:
  "select_job_fault no_faults = None \<and> system_user_found no_faults demo_history
   \<and> job_rows ''a3'' demo_history = [demo_job ''a3'' ''alice'' 4 Pending]
   \<and> job_rows ''a1'' demo_history = [demo_job ''a1'' ''alice'' 1 Completed]
   \<and> job_rows ''zz'' demo_history = []
   \<and> file_missing (demo_job ''a1'' ''alice'' 1 Completed) demo_history
   \<and> downloadFile_key no_faults ''a3'' demo_history
       = Failure 400 ''Translation is not yet completed. Current status: pending''
   \<and> downloadFile_key no_faults ''a1'' demo_history
       = Failure 404 ''Translated file not found on server''
   \<and> downloadFile_jwt no_faults (Some alice) ''a1'' demo_history
       = Failure 404 ''Translated file not found on server''
   \<and> downloadFile_key no_faults ''zz'' demo_history = Failure 404 ''Translation job not found''
   \<and> http_status (downloadFile_key no_faults ''a1'' demo_history)
       = http_status (downloadFile_key no_faults ''zz'' demo_history)
   \<and> downloadFile_key no_faults ''a1'' demo_history \<noteq> downloadFile_key no_faults ''zz'' demo_history"
proof -
  have h1: "select_job_fault no_faults = None" by code_simp
  have h2: "system_user_found no_faults demo_history" by code_simp
  have h3: "job_rows ''a3'' demo_history = [demo_job ''a3'' ''alice'' 4 Pending]" by code_simp
  have h4: "job_rows ''a1'' demo_history = [demo_job ''a1'' ''alice'' 1 Completed]" by code_simp
  have h5: "job_rows ''zz'' demo_history = []" by code_simp
  have h6: "file_missing (demo_job ''a1'' ''alice'' 1 Completed) demo_history" by code_simp
  have o3: "user_id (demo_job ''a3'' ''alice'' 4 Pending) = userId alice \<or> role alice = ''admin''"
    by code_simp
  have o1: "user_id (demo_job ''a1'' ''alice'' 1 Completed) = userId alice \<or> role alice = ''admin''"
    by code_simp
  have s3: "status (demo_job ''a3'' ''alice'' 4 Pending) = Pending" by code_simp
  have s1: "status (demo_job ''a1'' ''alice'' 1 Completed) = Completed" by code_simp
  show ?thesis
    using h1 h2 h3 h4 h5 h6 s1 s3
      download_not_ready_or_file_missing[OF h1 h3 h2 o3 h5]
      download_not_ready_or_file_missing[OF h1 h4 h2 o1 h5]
    by (simp add: not_ready_def http_status_def)
qed

theorem missing_file_is_plain_404_counterexample:
  "map status (job_rows ''a1'' demo_history) = [Completed]
   \<and> file_missing (demo_job ''a1'' ''alice'' 1 Completed) demo_history
   \<and> job_rows ''zz'' demo_history = []
   \<and> http_status (downloadFile_key no_faults ''a1'' demo_history) = 404
   \<and> http_status (downloadFile_key no_faults ''zz'' demo_history) = 404
   \<and> http_status (downloadFile_jwt no_faults (Some alice) ''a1'' demo_history) = 404
   \<and> http_status (downloadFile_jwt no_faults (Some alice) ''zz'' demo_history) = 404"
  by code_simp

subsection \<open>C8: another principal's job\<close>

lemma getJobStatus_jwt_foreign:
  assumes "list_all (\<lambda>j. user_id j \<noteq> userId c) (job_rows jobId w)"
  shows "getJobStatus_jwt df (Some c) jobId w =
           (if select_job_fault df = None then Failure 404 ''Translation job not found''
            else Failure 500 ''Failed to fetch job status'')"
proof -
  have "filter (\<lambda>j. job_id j = jobId \<and> user_id j = userId c) (translation_jobs w) = []"
    using assms by (auto simp: job_rows_def list_all_iff filter_empty_conv)
  then show ?thesis
    by (auto simp: getJobStatus_jwt_def select_own_job_def split: option.splits)
qed

lemma downloadFile_jwt_foreign:
  assumes "role c \<noteq> ''admin''" and "list_all (\<lambda>j. user_id j \<noteq> userId c) (job_rows jobId w)"
  shows "downloadFile_jwt df (Some c) jobId w =
           (if select_job_fault df \<noteq> None then Failure 500 ''Failed to download file''
            else if job_rows jobId w = [] then Failure 404 ''Translation job not found''
            else Failure 403 ''You do not have permission to access this file'')"
  using assms
  by (auto simp: downloadFile_jwt_def select_job_def Let_def
           split: option.splits list.splits)

text \<open>
  C8. Behind JWT sessions, a caller who is not an admin and who owns no row of the
  requested job id gets from \<open>getJobStatus\<close> the same 404 as for an id that does not
  exist, and from \<open>downloadFile\<close> 403 when the id exists and that 404 when it does not
  (500 from either when the database query throws): a fixed message, nothing of the job.
  A request without a principal gets 401. Behind the static API key there is no caller
  to compare with, and \<open>getJobStatus\<close> returns the job of any owner.
\<close>

theorem foreign_job_is_withheld:
  assumes "role c \<noteq> ''admin''"
    and "list_all (\<lambda>j. user_id j \<noteq> userId c) (job_rows jobId w)"
  shows "getJobStatus_jwt df (Some c) jobId w =
           (if select_job_fault df = None then Failure 404 ''Translation job not found''
            else Failure 500 ''Failed to fetch job status'')
       \<and> downloadFile_jwt df (Some c) jobId w =
           (if select_job_fault df \<noteq> None then Failure 500 ''Failed to download file''
            else if job_rows jobId w = [] then Failure 404 ''Translation job not found''
            else Failure 403 ''You do not have permission to access this file'')
       \<and> getJobStatus_jwt df None jobId w = Failure 401 ''User not authenticated''
       \<and> downloadFile_jwt df None jobId w = Failure 401 ''User not authenticated''
       \<and> (system_user_found df w \<and> select_job_fault df = None \<and> job_rows jobId w = j # js \<longrightarrow>
            getJobStatus_key df jobId w = StatusOk (detail_of True j)
          \<and> downloadFile_key df jobId w = send_file j w)"
  using getJobStatus_jwt_foreign[OF assms(2), of df] downloadFile_jwt_foreign[OF assms, of df]
    downloadFile_key_found[of df w jobId]
  by (auto simp: getJobStatus_jwt_def downloadFile_jwt_def getJobStatus_key_def
        system_user_found_def select_job_def split: sum.splits option.splits)

theorem foreign_job_is_withheld_witness:
  "role mallory \<noteq> ''admin''
   \<and> job_rows ''b1'' demo_history = [demo_job ''b1'' ''bob'' 2 Completed]
   \<and> list_all (\<lambda>j. user_id j \<noteq> userId mallory) (job_rows ''b1'' demo_history)
   \<and> files demo_history ''/srv/translated/translated_b1.txt'' = Some ''hola''
   \<and> getJobStatus_jwt no_faults (Some mallory) ''b1'' demo_history
       = Failure 404 ''Translation job not found''
   \<and> downloadFile_jwt no_faults (Some mallory) ''b1'' demo_history
       = Failure 403 ''You do not have permission to access this file''
   \<and> getJobStatus_key no_faults ''b1'' demo_history
       = StatusOk (detail_of True (demo_job ''b1'' ''bob'' 2 Completed))
   \<and> downloadFile_key no_faults ''b1'' demo_history
       = Download ''/srv/translated/translated_b1.txt'' (Some ''translated_b1.txt'')"
proof -
  have h1: "role mallory \<noteq> ''admin''" by code_simp
  have h2: "list_all (\<lambda>j. user_id j \<noteq> userId mallory) (job_rows ''b1'' demo_history)"
    by code_simp
  have h3: "job_rows ''b1'' demo_history = [demo_job ''b1'' ''bob'' 2 Completed]" by code_simp
  have h4: "system_user_found no_faults demo_history" by code_simp
  have h5: "select_job_fault no_faults = None" by code_simp
  have h6: "send_file (demo_job ''b1'' ''bob'' 2 Completed) demo_history
            = Download ''/srv/translated/translated_b1.txt'' (Some ''translated_b1.txt'')"
    by code_simp
  have h7: "files demo_history ''/srv/translated/translated_b1.txt'' = Some ''hola''"
    by code_simp
  show ?thesis
    using h1 h2 h3 h4 h5 h6 h7
      foreign_job_is_withheld[OF h1 h2, where df = no_faults
        and j = "demo_job ''b1'' ''bob'' 2 Completed" and js = "[]"]
    by simp
qed

subsection \<open>C6: the remote-API executor\<close>

lemma remote_configured:
  assumes "configured re"
  obtains api key where "apiUrl re = Some api" "apiKey re = Some key"
  using assms by (auto simp: configured_def)

lemma remote_unfold:
  assumes "configured re" and "apiUrl re = Some api" and "apiKey re = Some key"
  shows "translateDocument_remote re src tgt sl tg dt fs =
           (case fs src of
              None \<Rightarrow> Thrown (enoent src)
            | Some buf \<Rightarrow>
                (case post_form re api key buf (basename src) sl tg dt of
                   Inl e \<Rightarrow> Thrown e
                 | Inr resp \<Rightarrow> read_response re api resp tgt fs))"
  using assms by (simp add: translateDocument_remote_def)

lemma read_response_rejects:
  assumes "\<not> ok resp"
  shows "read_response re api resp tgt fs =
           (case body_text resp of
              Inl e \<Rightarrow> Thrown e
            | Inr body \<Rightarrow> Thrown (Error (''External API error: '' @ show_nat (status_code resp)
                                          @ '' - '' @ body)))"
  using assms by (simp add: read_response_def)

lemma read_response_no_url:
  assumes "ok resp" and "body_json resp = Inr None \<or> body_json resp = Inr (Some [])"
  shows "read_response re api resp tgt fs =
           Thrown (Error ''External API did not return a translated file URL'')"
  using assms by (auto simp: read_response_def)

lemma save_download_done:
  assumes "save_download re api url tgt fs = Done fs'"
  shows "\<exists>fr bytes. fetch_url re (download_url url api) = Inr fr \<and> ok fr
           \<and> body_bytes fr = Inr bytes \<and> write_faults re tgt = None
           \<and> fs' = fs(tgt \<mapsto> bytes)"
  using assms
  by (auto simp: save_download_def Let_def split: sum.splits option.splits if_splits)

lemma read_response_done:
  assumes "read_response re api resp tgt fs = Done fs'"
  shows "ok resp \<and> (\<exists>url fr bytes. body_json resp = Inr (Some url) \<and> url \<noteq> []
           \<and> fetch_url re (download_url url api) = Inr fr \<and> ok fr
           \<and> body_bytes fr = Inr bytes \<and> fs' = fs(tgt \<mapsto> bytes))"
  using assms
  by (auto simp: read_response_def dest!: save_download_done
           split: sum.splits option.splits if_splits)

text \<open>
  C6. With both environment variables set, \<open>translateDocument\<close> of the remote-API
  controller, once the source file is read and the POST has answered: on a status
  outside 200..299 it throws, and with the response body read the message is
  "External API error: <status> - <body>"; on a success status whose JSON has no
  (or an empty) \<open>translatedFileUrl\<close> it throws "External API did not return a
  translated file URL". It returns normally only if the POST answered with a success
  status and a URL, the GET of that URL (host rewritten from localhost to the API host
  where the code does so) answered with a success status, and the bytes of that answer
  are now at the target path.
\<close>

theorem remote_executor_outcomes:
  assumes "configured re" and "apiUrl re = Some api" and "apiKey re = Some key"
    and "fs src = Some buf"
    and "post_form re api key buf (basename src) sl tg dt = Inr resp"
  shows "(\<not> ok resp \<longrightarrow>
            \<not> is_done (translateDocument_remote re src tgt sl tg dt fs)
          \<and> (body_text resp = Inr body \<longrightarrow>
               translateDocument_remote re src tgt sl tg dt fs =
                 Thrown (Error (''External API error: '' @ show_nat (status_code resp)
                                @ '' - '' @ body))))
       \<and> (ok resp \<and> (body_json resp = Inr None \<or> body_json resp = Inr (Some [])) \<longrightarrow>
            translateDocument_remote re src tgt sl tg dt fs =
              Thrown (Error ''External API did not return a translated file URL''))
       \<and> (translateDocument_remote re src tgt sl tg dt fs = Done fs' \<longrightarrow>
            ok resp
          \<and> (\<exists>url fr bytes. body_json resp = Inr (Some url) \<and> url \<noteq> []
                \<and> fetch_url re (download_url url api) = Inr fr \<and> ok fr
                \<and> body_bytes fr = Inr bytes \<and> fs' = fs(tgt \<mapsto> bytes)
                \<and> fs' tgt = Some bytes))"
proof -
  have unf: "translateDocument_remote re src tgt sl tg dt fs = read_response re api resp tgt fs"
    using remote_unfold[OF assms(1-3), of src tgt sl tg dt fs] assms(4,5) by simp
  have a: "\<not> ok resp \<longrightarrow>
            \<not> is_done (translateDocument_remote re src tgt sl tg dt fs)
          \<and> (body_text resp = Inr body \<longrightarrow>
               translateDocument_remote re src tgt sl tg dt fs =
                 Thrown (Error (''External API error: '' @ show_nat (status_code resp)
                                @ '' - '' @ body)))"
    using read_response_rejects[of resp re api tgt fs] unf
    by (auto simp: is_done_def split: sum.splits)
  have b: "ok resp \<and> (body_json resp = Inr None \<or> body_json resp = Inr (Some [])) \<longrightarrow>
            translateDocument_remote re src tgt sl tg dt fs =
              Thrown (Error ''External API did not return a translated file URL'')"
    using read_response_no_url[of resp re api tgt fs] unf by auto
  have c: "translateDocument_remote re src tgt sl tg dt fs = Done fs' \<longrightarrow>
            ok resp
          \<and> (\<exists>url fr bytes. body_json resp = Inr (Some url) \<and> url \<noteq> []
                \<and> fetch_url re (download_url url api) = Inr fr \<and> ok fr
                \<and> body_bytes fr = Inr bytes \<and> fs' = fs(tgt \<mapsto> bytes)
                \<and> fs' tgt = Some bytes)"
    using read_response_done[of re api resp tgt fs fs'] unf by auto
  show ?thesis using a b c by blast
qed

theorem remote_executor_outcomes_witness:
  "configured (demo_remote demo_error_response)
   \<and> files demo_world ''/in/a.txt'' = Some ''hello''
   \<and> \<not> ok demo_error_response \<and> body_text demo_error_response = Inr ''upstream exploded''
   \<and> thrown_message (translateDocument_remote (demo_remote demo_error_response) ''/in/a.txt''
        ''/out/a.txt'' ''en'' ''es'' ''general'' (files demo_world))
       = Some ''External API error: 500 - upstream exploded''
   \<and> ok demo_no_url_response \<and> body_json demo_no_url_response = Inr None
   \<and> thrown_message (translateDocument_remote (demo_remote demo_no_url_response) ''/in/a.txt''
        ''/out/a.txt'' ''en'' ''es'' ''general'' (files demo_world))
       = Some ''External API did not return a translated file URL''
   \<and> translateDocument_remote (demo_remote demo_ok_response) ''/in/a.txt''
        ''/out/a.txt'' ''en'' ''es'' ''general'' (files demo_world)
       = Done ((files demo_world)(''/out/a.txt'' \<mapsto> ''hola''))
   \<and> ok demo_ok_response
   \<and> body_json demo_ok_response = Inr (Some ''http://localhost:8000/files/out.txt'')
   \<and> download_url ''http://localhost:8000/files/out.txt'' ''http://20.20.20.205:8000/translate''
       = ''http://20.20.20.205:8000/files/out.txt''
   \<and> written_at (translateDocument_remote (demo_remote demo_ok_response) ''/in/a.txt''
        ''/out/a.txt'' ''en'' ''es'' ''general'' (files demo_world)) ''/out/a.txt''
       = Some ''hola''"
proof -
  have cfg: "configured (demo_remote r)" for r
    by (simp add: configured_def demo_remote_def)
  have url: "apiUrl (demo_remote r) = Some ''http://20.20.20.205:8000/translate''" for r
    by (simp add: demo_remote_def)
  have key: "apiKey (demo_remote r) = Some ''secret''" for r
    by (simp add: demo_remote_def)
  have src: "files demo_world ''/in/a.txt'' = Some ''hello''"
    by code_simp
  have post: "post_form (demo_remote r) ''http://20.20.20.205:8000/translate'' ''secret''
                ''hello'' (basename ''/in/a.txt'') ''en'' ''es'' ''general'' = Inr r" for r
    by (simp add: demo_remote_def)
  have e1: "\<not> ok demo_error_response" by code_simp
  have e2: "body_text demo_error_response = Inr ''upstream exploded''" by code_simp
  have e3: "show_nat (status_code demo_error_response) = ''500''" by code_simp
  have n1: "ok demo_no_url_response" by code_simp
  have n2: "body_json demo_no_url_response = Inr None" by code_simp
  have o1: "ok demo_ok_response" "ok demo_file_response" by code_simp+
  have o2: "body_json demo_ok_response = Inr (Some ''http://localhost:8000/files/out.txt'')"
    by code_simp
  have du: "download_url ''http://localhost:8000/files/out.txt''
              ''http://20.20.20.205:8000/translate''
            = ''http://20.20.20.205:8000/files/out.txt''"
    by code_simp
  have dn: "translateDocument_remote (demo_remote demo_ok_response) ''/in/a.txt''
        ''/out/a.txt'' ''en'' ''es'' ''general'' (files demo_world)
       = Done ((files demo_world)(''/out/a.txt'' \<mapsto> ''hola''))"
    using cfg[of demo_ok_response] src o1 du
    by (simp add: translateDocument_remote_def read_response_def save_download_def Let_def
          demo_remote_def demo_ok_response_def demo_file_response_def no_write_faults_def)
  have m1: "translateDocument_remote (demo_remote demo_error_response) ''/in/a.txt''
        ''/out/a.txt'' ''en'' ''es'' ''general'' (files demo_world)
       = Thrown (Error (''External API error: '' @ show_nat (status_code demo_error_response)
                        @ '' - '' @ ''upstream exploded''))"
    using e1 e2
      remote_executor_outcomes[where re = "demo_remote demo_error_response"
        and fs = "files demo_world" and src = "''/in/a.txt''" and resp = demo_error_response
        and body = "''upstream exploded''" and tgt = "''/out/a.txt''",
        OF cfg url key src post]
    by blast
  have m2: "translateDocument_remote (demo_remote demo_no_url_response) ''/in/a.txt''
        ''/out/a.txt'' ''en'' ''es'' ''general'' (files demo_world)
       = Thrown (Error ''External API did not return a translated file URL'')"
    using n1 n2
      remote_executor_outcomes[where re = "demo_remote demo_no_url_response"
        and fs = "files demo_world" and src = "''/in/a.txt''" and resp = demo_no_url_response
        and tgt = "''/out/a.txt''",
        OF cfg url key src post]
    by blast
  have m3: "ok demo_ok_response
          \<and> (\<exists>u fr bytes. body_json demo_ok_response = Inr (Some u) \<and> u \<noteq> []
                \<and> fetch_url (demo_remote demo_ok_response)
                     (download_url u ''http://20.20.20.205:8000/translate'') = Inr fr
                \<and> ok fr \<and> body_bytes fr = Inr bytes
                \<and> ((files demo_world)(''/out/a.txt'' \<mapsto> ''hola'')) ''/out/a.txt'' = Some bytes)"
    using dn
      remote_executor_outcomes[where re = "demo_remote demo_ok_response"
        and fs = "files demo_world" and src = "''/in/a.txt''" and resp = demo_ok_response
        and tgt = "''/out/a.txt''"
        and fs' = "(files demo_world)(''/out/a.txt'' \<mapsto> ''hola'')",
        OF cfg url key src post]
    by blast
  have t1: "thrown_message (translateDocument_remote (demo_remote demo_error_response) ''/in/a.txt''
        ''/out/a.txt'' ''en'' ''es'' ''general'' (files demo_world))
       = Some ''External API error: 500 - upstream exploded''"
    unfolding m1 e3 by (simp add: thrown_message_def)
  have t2: "thrown_message (translateDocument_remote (demo_remote demo_no_url_response) ''/in/a.txt''
        ''/out/a.txt'' ''en'' ''es'' ''general'' (files demo_world))
       = Some ''External API did not return a translated file URL''"
    unfolding m2 by (simp add: thrown_message_def)
  have t3: "written_at (translateDocument_remote (demo_remote demo_ok_response) ''/in/a.txt''
        ''/out/a.txt'' ''en'' ''es'' ''general'' (files demo_world)) ''/out/a.txt''
       = Some ''hola''"
    unfolding dn by (simp add: written_at_def)
  show ?thesis
    using cfg[of demo_error_response] src e1 e2 n1 n2 o2 du dn m3 t1 t2 t3
    by blast
qed

text \<open>With the controller on top: under the remote-API executor a job the controller marks
  completed has its bytes at the recorded path, in every state of the request.\<close>

lemma remote_completed_has_file:
  assumes "job_rows (new_job_id ev) w = []"
  shows "consistent_along (new_job_id ev)
           (snd (snd (processTranslation_key (translateDocument_remote re) ev df upl sl tg dt w)))"
  using key_request_consistent[OF remote_writes_output assms] .

end
